theory Spec2Isabelle
  imports Complex_Main
begin

section \<open>Text (preprocessing.py, recommender.py)\<close>

text \<open>
  A Python string is a list of Unicode code points. The classes of the regular expressions
  \<^verbatim>\<open>[^\w\s\-]\<close> and \<^verbatim>\<open>\s+\<close>, of \<^verbatim>\<open>str.strip\<close> and of \<^verbatim>\<open>str.lower\<close> are those of the Unicode
  database. Their ASCII part is written out; for the code points from 128 on the database is
  a parameter, so that every statement holds for whatever the database says there.
\<close>

type_synonym str = "nat list"

definition py :: "string \<Rightarrow> str" where
  \<comment> \<open>the Python string with the given characters\<close>
  "py cs = map of_char cs"

record unicode_db =
  uni_alnum :: "nat \<Rightarrow> bool"   \<comment> \<open>\<^verbatim>\<open>str.isalnum\<close> of a code point from 128 on\<close>
  uni_space :: "nat \<Rightarrow> bool"   \<comment> \<open>\<^verbatim>\<open>str.isspace\<close> of a code point from 128 on\<close>
  uni_lower :: "str \<Rightarrow> str"    \<comment> \<open>\<^verbatim>\<open>str.lower\<close> of a string that is not all ASCII\<close>

definition is_upper :: "nat \<Rightarrow> bool" where
  "is_upper c = (65 \<le> c \<and> c \<le> 90)"

definition is_lower :: "nat \<Rightarrow> bool" where
  "is_lower c = (97 \<le> c \<and> c \<le> 122)"

definition is_digit :: "nat \<Rightarrow> bool" where
  "is_digit c = (48 \<le> c \<and> c \<le> 57)"

definition is_alnum :: "unicode_db \<Rightarrow> nat \<Rightarrow> bool" where
  "is_alnum U c = (if c < 128 then is_upper c \<or> is_lower c \<or> is_digit c else uni_alnum U c)"

definition is_word :: "unicode_db \<Rightarrow> nat \<Rightarrow> bool" where
  \<comment> \<open>the class \<^verbatim>\<open>\w\<close> of a str pattern: alphanumeric or the underscore\<close>
  "is_word U c = (is_alnum U c \<or> c = 95)"

definition is_space :: "unicode_db \<Rightarrow> nat \<Rightarrow> bool" where
  \<comment> \<open>the class \<^verbatim>\<open>\s\<close> of a str pattern, which is also what \<^verbatim>\<open>str.strip()\<close> removes; in ASCII:
      tab, line feed, vertical tab, form feed, carriage return, the separators 28 to 31 and
      the blank\<close>
  "is_space U c = (if c < 128 then (9 \<le> c \<and> c \<le> 13) \<or> (28 \<le> c \<and> c \<le> 32) else uni_space U c)"

definition lower_ascii :: "nat \<Rightarrow> nat" where
  "lower_ascii c = (if is_upper c then c + 32 else c)"

definition str_lower :: "unicode_db \<Rightarrow> str \<Rightarrow> str" where
  \<comment> \<open>\<^verbatim>\<open>str.lower()\<close>: on an ASCII string the letters A to Z move to a to z\<close>
  "str_lower U s = (if list_all (\<lambda>c. c < 128) s then map lower_ascii s else uni_lower U s)"

definition sub_punct :: "unicode_db \<Rightarrow> str \<Rightarrow> str" where
  \<comment> \<open>\<^verbatim>\<open>re.sub(r'[^\w\s\-]', ' ', text)\<close>; 45 is the hyphen and 32 the blank\<close>
  "sub_punct U s = map (\<lambda>c. if is_word U c \<or> is_space U c \<or> c = 45 then c else 32) s"

function sub_spaces :: "unicode_db \<Rightarrow> str \<Rightarrow> str" where
  \<comment> \<open>\<^verbatim>\<open>re.sub(r'\s+', ' ', text)\<close>: each maximal run of whitespace becomes one blank\<close>
  "sub_spaces U [] = []"
| "sub_spaces U (c # cs) =
     (if is_space U c then 32 # sub_spaces U (dropWhile (is_space U) cs)
      else c # sub_spaces U cs)"
  by pat_completeness auto
termination
  by (relation "measure (\<lambda>(U, s). length s)") (auto simp: length_dropWhile_le less_Suc_eq_le)

definition str_rstrip :: "unicode_db \<Rightarrow> str \<Rightarrow> str" where
  \<comment> \<open>\<^verbatim>\<open>str.rstrip()\<close>\<close>
  "str_rstrip U s = rev (dropWhile (is_space U) (rev s))"

definition str_strip :: "unicode_db \<Rightarrow> str \<Rightarrow> str" where
  \<comment> \<open>\<^verbatim>\<open>str.strip()\<close>\<close>
  "str_strip U s = rev (dropWhile (is_space U) (rev (dropWhile (is_space U) s)))"

datatype py_value = PyStr str | PyNone | PyNaN | PyInt int | PyList "str list"

fun clean_text :: "unicode_db \<Rightarrow> py_value \<Rightarrow> str" where
  "clean_text U (PyStr text) = str_strip U (sub_spaces U (sub_punct U (str_lower U text)))"
| "clean_text U _ = []"

definition preprocess_query :: "unicode_db \<Rightarrow> str \<Rightarrow> str" where
  "preprocess_query U query = str_strip U (sub_spaces U (sub_punct U (str_lower U query)))"

text \<open>
  Maximal runs of the elements that satisfy \<open>P\<close>, left to right. With \<open>P\<close> the
  non-whitespace characters these are the words of \<^verbatim>\<open>str.split()\<close>; with \<open>P\<close> the word
  characters they are the matches of \<^verbatim>\<open>\w+\<close>.
\<close>

function runs :: "('a \<Rightarrow> bool) \<Rightarrow> 'a list \<Rightarrow> 'a list list" where
  "runs P [] = []"
| "runs P (c # cs) =
     (if P c then (c # takeWhile P cs) # runs P (dropWhile P cs) else runs P cs)"
  by pat_completeness auto
termination
  by (relation "measure (\<lambda>(P, s). length s)") (auto simp: length_dropWhile_le less_Suc_eq_le)

fun join_with :: "'a list \<Rightarrow> 'a list list \<Rightarrow> 'a list" where
  \<comment> \<open>\<^verbatim>\<open>sep.join(ws)\<close>\<close>
  "join_with sep [] = []"
| "join_with sep [w] = w"
| "join_with sep (w # v # ws) = w @ sep @ join_with sep (v # ws)"

text \<open>
  The normaliser in the words of the specification: the text is lowercased, every character
  that is not alphanumeric, an underscore, whitespace or a hyphen becomes a blank, and then
  runs of whitespace are collapsed to one blank and the ends trimmed, which is to say that the
  whitespace-separated words of the text are joined by single blanks.
\<close>

definition blanked :: "unicode_db \<Rightarrow> nat \<Rightarrow> nat" where
  "blanked U c = (if is_alnum U c \<or> c = 95 \<or> is_space U c \<or> c = 45 then c else 32)"

definition normalize_spec :: "unicode_db \<Rightarrow> str \<Rightarrow> str" where
  "normalize_spec U text =
     join_with [32] (runs (\<lambda>c. \<not> is_space U c) (map (blanked U) (str_lower U text)))"

text \<open>
  The same for an ASCII text, character by character and without the classes above: a letter
  from A to Z becomes the letter from a to z; a letter from a to z, a digit, the underscore
  (95) and the hyphen (45) stay; every other character, whitespace included, becomes a blank;
  the words between the blanks are joined by single blanks.
\<close>

definition ascii_norm :: "nat \<Rightarrow> nat" where
  "ascii_norm c =
     (if 65 \<le> c \<and> c \<le> 90 then c + 32
      else if (97 \<le> c \<and> c \<le> 122) \<or> (48 \<le> c \<and> c \<le> 57) \<or> c = 95 \<or> c = 45 then c
      else 32)"

definition normalize_ascii :: "str \<Rightarrow> str" where
  "normalize_ascii text = join_with [32] (runs (\<lambda>c. c \<noteq> 32) (map ascii_norm text))"

section \<open>The catalog frame (preprocessing.py)\<close>

datatype error =
    HTTPException nat          \<comment> \<open>\<^verbatim>\<open>raise HTTPException(status_code=...)\<close> in app.py\<close>
  | RequestValidationError     \<comment> \<open>a \<^verbatim>\<open>QueryInput\<close> outside its declared bounds\<close>
  | ResponseValidationError    \<comment> \<open>a value that the declared \<^verbatim>\<open>AssessmentOutput\<close> refuses\<close>
  | IndexError                 \<comment> \<open>\<^verbatim>\<open>data_df.iloc[idx]\<close> out of range\<close>
  | ValueError                 \<comment> \<open>raised by the vectorizer's \<^verbatim>\<open>fit_transform\<close>\<close>

abbreviation ServiceUnavailable :: error where
  "ServiceUnavailable \<equiv> HTTPException 503"

text \<open>
  A cell of the frame holds a value, NaN (the record had no such key) or \<^verbatim>\<open>None\<close> (the
  record had a JSON null). A frame is its column names and its rows; a row has a cell for
  each column the catalog can have, and the cells of a column that the frame does not have are
  never read. The last four columns are the derived ones.
\<close>

datatype 'a cell = Val 'a | NaN | Null

record assessment =
  a_id :: "str cell"
  a_name :: "str cell"
  a_url :: "str cell"
  a_remote_support :: "bool cell"
  a_adaptive_irt :: "bool cell"
  a_test_types :: "str list cell"
  a_description :: "str cell"
  a_duration :: "int cell"
  a_test_types_str :: "str cell"
  a_remote_support_display :: "str cell"
  a_adaptive_irt_display :: "str cell"
  a_combined_features :: "str cell"

record dataframe =
  df_columns :: "string list"
  df_rows :: "assessment list"

definition empty_frame :: dataframe where
  \<comment> \<open>\<^verbatim>\<open>pd.DataFrame()\<close>\<close>
  "empty_frame = \<lparr>df_columns = [], df_rows = []\<rparr>"

definition df_empty :: "dataframe \<Rightarrow> bool" where
  \<comment> \<open>\<^verbatim>\<open>df.empty\<close>: no rows or no columns\<close>
  "df_empty df = (df_rows df = [] \<or> df_columns df = [])"

definition has_column :: "dataframe \<Rightarrow> string \<Rightarrow> bool" where
  \<comment> \<open>\<^verbatim>\<open>name in df.columns\<close>\<close>
  "has_column df name = (name \<in> set (df_columns df))"

definition add_column :: "string \<Rightarrow> string list \<Rightarrow> string list" where
  \<comment> \<open>the columns after \<^verbatim>\<open>df[name] = ...\<close>: a new column goes to the end\<close>
  "add_column name cols = (if name \<in> set cols then cols else cols @ [name])"

text \<open>
  What the body of the \<^verbatim>\<open>try\<close> block of \<^verbatim>\<open>load_data\<close> does with the file: it raises one
  of the three exceptions the function catches, or builds a frame from the parsed records
  (for the catalog \<^verbatim>\<open>[]\<close>, the frame without rows and columns).
\<close>

datatype load_outcome =
    FileNotFoundError
  | JSONDecodeError
  | OtherException
  | Parsed dataframe

fun load_data :: "load_outcome \<Rightarrow> dataframe" where
  "load_data (Parsed df) = df"
| "load_data FileNotFoundError = empty_frame"
| "load_data JSONDecodeError = empty_frame"
| "load_data OtherException = empty_frame"

fun py_of_cell :: "str cell \<Rightarrow> py_value" where
  "py_of_cell (Val s) = PyStr s"
| "py_of_cell NaN = PyNaN"
| "py_of_cell Null = PyNone"

fun join_types :: "str list cell \<Rightarrow> str cell" where
  \<comment> \<open>\<^verbatim>\<open>', '.join(x) if isinstance(x, list) else x\<close>\<close>
  "join_types (Val xs) = Val (join_with (py '', '') xs)"
| "join_types NaN = NaN"
| "join_types Null = Null"

fun truthy_display :: "bool cell \<Rightarrow> str cell" where
  \<comment> \<open>\<^verbatim>\<open>'Yes' if x else 'No'\<close>: NaN is truthy, \<^verbatim>\<open>None\<close> is not\<close>
  "truthy_display (Val True) = Val (py ''Yes'')"
| "truthy_display (Val False) = Val (py ''No'')"
| "truthy_display NaN = Val (py ''Yes'')"
| "truthy_display Null = Val (py ''No'')"

definition preprocess_data :: "unicode_db \<Rightarrow> dataframe \<Rightarrow> dataframe" where
  "preprocess_data U df =
     (if df_empty df then df
      else
        \<lparr>df_columns =
           (let c1 = add_column ''description'' (df_columns df);
                c2 = (if has_column df ''test_types'' then add_column ''test_types_str'' c1 else c1);
                c3 = (if has_column df ''remote_support''
                      then add_column ''remote_support_display'' c2 else c2)
            in if has_column df ''adaptive_irt'' then add_column ''adaptive_irt_display'' c3 else c3),
         df_rows = map (\<lambda>r. r\<lparr>
           a_description :=
             Val (clean_text U (if has_column df ''description''
                                then py_of_cell (a_description r) else PyStr [])),
           a_test_types_str :=
             (if has_column df ''test_types'' then join_types (a_test_types r)
              else a_test_types_str r),
           a_remote_support_display :=
             (if has_column df ''remote_support'' then truthy_display (a_remote_support r)
              else a_remote_support_display r),
           a_adaptive_irt_display :=
             (if has_column df ''adaptive_irt'' then truthy_display (a_adaptive_irt r)
              else a_adaptive_irt_display r)\<rparr>) (df_rows df)\<rparr>)"

fun add_cells :: "str cell \<Rightarrow> str cell \<Rightarrow> str cell" where
  \<comment> \<open>\<^verbatim>\<open>description + ' ' + test_types_str\<close> on one row: a missing operand gives NaN\<close>
  "add_cells (Val d) (Val t) = Val (d @ [32] @ t)"
| "add_cells _ _ = NaN"

definition get_features_for_recommendation :: "dataframe \<Rightarrow> dataframe" where
  "get_features_for_recommendation df =
     (if df_empty df then df
      else if has_column df ''test_types_str'' \<and> has_column df ''description''
      then \<lparr>df_columns = add_column ''combined_features'' (df_columns df),
            df_rows = map (\<lambda>r. r\<lparr>a_combined_features :=
                        add_cells (a_description r) (a_test_types_str r)\<rparr>) (df_rows df)\<rparr>
      else if has_column df ''description''
      then \<lparr>df_columns = add_column ''combined_features'' (df_columns df),
            df_rows = map (\<lambda>r. r\<lparr>a_combined_features := a_description r\<rparr>) (df_rows df)\<rparr>
      else df)"

section \<open>Floating point (the arithmetic of the library calls)\<close>

text \<open>
  The vectors and similarities are arrays of binary64 numbers. A binary64 operation returns the
  exact result rounded to the nearest number with a significand of 53 bits, ties to the even
  significand. The numbers here stay far from the ends of the exponent range, which is not
  modelled.
\<close>

definition round_half_even :: "real \<Rightarrow> int" where
  "round_half_even x =
     (let f = \<lfloor>x\<rfloor>
      in if x - of_int f < 1 / 2 then f
         else if 1 / 2 < x - of_int f then f + 1
         else if even f then f else f + 1)"

definition ulp :: "real \<Rightarrow> real" where
  \<comment> \<open>the distance between neighbouring binary64 numbers in the binade of \<open>x\<close>\<close>
  "ulp x = 2 powr (of_int \<lfloor>log 2 \<bar>x\<bar>\<rfloor> - 52)"

definition fl :: "real \<Rightarrow> real" where
  "fl x = (if x = 0 then 0 else of_int (round_half_even (x / ulp x)) * ulp x)"

definition fadd :: "real \<Rightarrow> real \<Rightarrow> real" where
  "fadd a b = fl (a + b)"

definition fmul :: "real \<Rightarrow> real \<Rightarrow> real" where
  "fmul a b = fl (a * b)"

definition fdiv :: "real \<Rightarrow> real \<Rightarrow> real" where
  "fdiv a b = fl (a / b)"

definition fsqrt :: "real \<Rightarrow> real" where
  "fsqrt a = fl (sqrt a)"

section \<open>The vectorizer and the similarity (library calls of recommender.py)\<close>

text \<open>
  \<^verbatim>\<open>TfidfVectorizer(max_features=5000, stop_words='english', ngram_range=(1, 3))\<close> and
  \<^verbatim>\<open>cosine_similarity\<close> belong to scikit-learn. A fitted vectorizer is the vocabulary in
  feature order, the inverse document frequency of each feature, and the stop word list.
  Fitting is a parameter of the model. Transforming a text and the cosine are written out as
  the library computes them: the squares of a row are added up from the left, the row is
  divided by the square root of the sum unless the sum is zero, and a dot product is added up
  from the left over the features.
\<close>

record vectorizer =
  vocabulary :: "str list"
  idf :: "real list"
  stop_words :: "str list"

definition tokenize :: "unicode_db \<Rightarrow> str \<Rightarrow> str list" where
  \<comment> \<open>the matches of the token pattern \<^verbatim>\<open>(?u)\b\w\w+\b\<close>: runs of two or more word characters\<close>
  "tokenize U doc = filter (\<lambda>w. 2 \<le> length w) (runs (is_word U) doc)"

definition ngrams_of :: "nat \<Rightarrow> str list \<Rightarrow> str list" where
  "ngrams_of n toks = map (\<lambda>i. join_with [32] (take n (drop i toks))) [0..<length toks + 1 - n]"

definition word_ngrams :: "str list \<Rightarrow> str list \<Rightarrow> str list" where
  \<comment> \<open>stop words are removed first, then the 1-, 2- and 3-grams of what is left are listed\<close>
  "word_ngrams stop tokens =
     (let toks = filter (\<lambda>w. w \<notin> set stop) tokens
      in toks @ ngrams_of 2 toks @ ngrams_of 3 toks)"

definition analyze :: "unicode_db \<Rightarrow> vectorizer \<Rightarrow> str \<Rightarrow> str list" where
  "analyze U v doc = word_ngrams (stop_words v) (tokenize U (str_lower U doc))"

definition sum_squares :: "real list \<Rightarrow> real" where
  "sum_squares x = foldl (\<lambda>acc a. fadd acc (fmul a a)) 0 x"

definition l2_normalize :: "real list \<Rightarrow> real list" where
  \<comment> \<open>a row whose sum of squares is zero is left as it is\<close>
  "l2_normalize x =
     (let s = sum_squares x in if s = 0 then x else map (\<lambda>a. fdiv a (fsqrt s)) x)"

definition transform :: "unicode_db \<Rightarrow> vectorizer \<Rightarrow> str \<Rightarrow> real list" where
  \<comment> \<open>term counts over the vocabulary, times idf, normalised\<close>
  "transform U v doc =
     l2_normalize
       (map2 (\<lambda>t w. fmul (real (count_list (analyze U v doc) t)) w) (vocabulary v) (idf v))"

definition dot :: "real list \<Rightarrow> real list \<Rightarrow> real" where
  "dot x y = foldl (\<lambda>acc (a, b). fadd acc (fmul a b)) 0 (zip x y)"

definition cosine_similarity :: "real list \<Rightarrow> real list list \<Rightarrow> real list" where
  \<comment> \<open>\<^verbatim>\<open>cosine_similarity(query_vector, tfidf_matrix).flatten()\<close>: both sides normalised,
      then one dot product per row of the matrix\<close>
  "cosine_similarity q m = map (\<lambda>d. dot (l2_normalize q) (l2_normalize d)) m"

text \<open>
  \<^verbatim>\<open>ndarray.argsort()\<close> returns the indices in ascending order of their values. The default
  sort of numpy promises no order among equal values; the order it leaves them in is a
  parameter: \<open>tie xs i\<close> is the rank it gives to index \<open>i\<close> among the indices of equal
  value in \<open>xs\<close> (indices of equal value and equal rank stay in index order). Every choice of
  \<open>tie\<close> gives an ascending permutation of the indices, and every ascending permutation of the
  indices is given by some \<open>tie\<close>.
\<close>

type_synonym tie_order = "real list \<Rightarrow> nat \<Rightarrow> nat"

definition argsort :: "tie_order \<Rightarrow> real list \<Rightarrow> nat list" where
  "argsort tie xs =
     map snd (sort_key fst (sort_key (\<lambda>p. tie xs (snd p)) (zip xs [0..<length xs])))"

definition slice_last :: "int \<Rightarrow> 'a list \<Rightarrow> 'a list" where
  \<comment> \<open>the Python slice \<^verbatim>\<open>xs[-k:]\<close>: a negative start counts from the end, and the start is
      clamped to the bounds of the list\<close>
  "slice_last k xs =
     (let n = int (length xs); start = - k;
          start' = (if start < 0 then max (start + n) 0 else min start n)
      in drop (nat start') xs)"

definition top_indices :: "tie_order \<Rightarrow> real list \<Rightarrow> int \<Rightarrow> nat list" where
  \<comment> \<open>\<^verbatim>\<open>cosine_similarities.argsort()[-num_recommendations:][::-1]\<close>\<close>
  "top_indices tie sims num_recommendations =
     rev (slice_last num_recommendations (argsort tie sims))"

section \<open>The recommender (recommender.py)\<close>

record SHLRecommender =
  tfidf_vectorizer :: "vectorizer option"
  tfidf_matrix :: "real list list option"
  data_df :: "dataframe option"

record recommendation =
  rec_id :: "str cell"
  rec_name :: "str cell"
  rec_url :: "str cell"
  rec_remote_support :: "bool cell"
  rec_adaptive_irt :: "bool cell"
  rec_test_types :: "str list cell"
  rec_description :: "str cell"
  rec_duration :: "int cell"
  similarity_score :: real

record assessment_output =
  out_id :: str
  out_name :: str
  out_url :: str
  out_remote_support :: bool
  out_adaptive_irt :: bool
  out_test_types :: "str list"
  out_duration :: int
  out_similarity_score :: real

text \<open>
  What the libraries underneath decide: the Unicode database, the order numpy's sort leaves
  equal values in, what \<^verbatim>\<open>fit_transform\<close> returns on the texts of the catalog, and what the
  declared output model makes of a recommendation with a NaN or \<^verbatim>\<open>None\<close> field.
\<close>

record library =
  unicode :: unicode_db
  tie_order :: tie_order
  fit_transform :: "str list \<Rightarrow> error + (vectorizer \<times> real list list)"
  coerce_output :: "recommendation \<Rightarrow> error + assessment_output"

definition SHLRecommender_new :: SHLRecommender where
  \<comment> \<open>the three assignments at the head of \<^verbatim>\<open>__init__\<close>\<close>
  "SHLRecommender_new = \<lparr>tfidf_vectorizer = None, tfidf_matrix = None, data_df = None\<rparr>"

fun fillna :: "str cell \<Rightarrow> str" where
  \<comment> \<open>\<^verbatim>\<open>.fillna('')\<close> on one cell\<close>
  "fillna (Val s) = s"
| "fillna _ = []"

definition load_dataframe :: "library \<Rightarrow> SHLRecommender \<Rightarrow> dataframe \<Rightarrow> error + SHLRecommender" where
  "load_dataframe L self df =
     (let self' = self\<lparr>data_df := Some df\<rparr>
      in if has_column df ''combined_features'' \<or> has_column df ''description''
         then
           (let feature_column =
                  (if has_column df ''combined_features''
                   then a_combined_features else a_description)
            in case fit_transform L (map (\<lambda>r. fillna (feature_column r)) (df_rows df)) of
                 Inl e \<Rightarrow> Inl e
               | Inr (v, m) \<Rightarrow> Inr (self'\<lparr>tfidf_vectorizer := Some v, tfidf_matrix := Some m\<rparr>))
         else Inr self')"

definition SHLRecommender_load_data :: "library \<Rightarrow> SHLRecommender \<Rightarrow> load_outcome \<Rightarrow> error + SHLRecommender" where
  "SHLRecommender_load_data L self data_file =
     (let raw_df = load_data data_file
      in if \<not> df_empty raw_df
         then load_dataframe L self
                (get_features_for_recommendation (preprocess_data (unicode L) raw_df))
         else Inr self)"

definition SHLRecommender_init ::
  "library \<Rightarrow> load_outcome option \<Rightarrow> dataframe option \<Rightarrow> error + SHLRecommender" where
  \<comment> \<open>\<^verbatim>\<open>SHLRecommender(data_file=..., data_df=...)\<close>; the file is given by what reading it does\<close>
  "SHLRecommender_init L data_file df =
     (case df of
        Some d \<Rightarrow> load_dataframe L SHLRecommender_new d
      | None \<Rightarrow>
          (case data_file of
             Some f \<Rightarrow> SHLRecommender_load_data L SHLRecommender_new f
           | None \<Rightarrow> Inr SHLRecommender_new))"

definition series_get :: "dataframe \<Rightarrow> string \<Rightarrow> 'a cell \<Rightarrow> 'a \<Rightarrow> 'a cell" where
  \<comment> \<open>\<^verbatim>\<open>assessment.get(key, default)\<close> on a row of the frame: the cell, whatever it holds, when the
      frame has the column, and the default otherwise\<close>
  "series_get df key c d = (if has_column df key then c else Val d)"

definition make_recommendation :: "dataframe \<Rightarrow> assessment \<Rightarrow> real \<Rightarrow> recommendation" where
  "make_recommendation df a score =
     \<lparr>rec_id = series_get df ''id'' (a_id a) [],
      rec_name = series_get df ''name'' (a_name a) [],
      rec_url = series_get df ''url'' (a_url a) [],
      rec_remote_support = series_get df ''remote_support'' (a_remote_support a) False,
      rec_adaptive_irt = series_get df ''adaptive_irt'' (a_adaptive_irt a) False,
      rec_test_types = series_get df ''test_types'' (a_test_types a) [],
      rec_description = series_get df ''description'' (a_description a) [],
      rec_duration = series_get df ''duration'' (a_duration a) 0,
      similarity_score = score\<rparr>"

fun collect :: "dataframe \<Rightarrow> real list \<Rightarrow> nat list \<Rightarrow> error + recommendation list" where
  \<comment> \<open>the loop over \<^verbatim>\<open>top_indices\<close>\<close>
  "collect df sims [] = Inr []"
| "collect df sims (idx # rest) =
     (if sims ! idx > 0
      then (if idx < length (df_rows df)
            then (case collect df sims rest of
                    Inl e \<Rightarrow> Inl e
                  | Inr recs \<Rightarrow> Inr (make_recommendation df (df_rows df ! idx) (sims ! idx) # recs))
            else Inl IndexError)
      else collect df sims rest)"

definition recommend :: "library \<Rightarrow> SHLRecommender \<Rightarrow> str \<Rightarrow> int \<Rightarrow> error + recommendation list" where
  "recommend L self query num_recommendations =
     (case (data_df self, tfidf_vectorizer self, tfidf_matrix self) of
        (Some df, Some v, Some m) \<Rightarrow>
          (let processed_query = preprocess_query (unicode L) query;
               query_vector = transform (unicode L) v processed_query;
               cosine_similarities = cosine_similarity query_vector m
           in collect df cosine_similarities
                (top_indices (tie_order L) cosine_similarities num_recommendations))
      | _ \<Rightarrow> Inr [])"

section \<open>Evaluation (recommender.py, evaluate.py)\<close>

text \<open>
  A test query is a JSON object; a key it does not have is \<open>None\<close>. The recommended items are
  cells of the frame, the expected ones are strings. Python's true division of two integers
  and the sums of the means are taken over the reals.
\<close>

record test_item =
  t_query :: "str option"
  expected_assessments :: "str list option"
  relevant_ids :: "str list option"

definition get_or :: "'a option \<Rightarrow> 'a \<Rightarrow> 'a" where
  \<comment> \<open>\<^verbatim>\<open>test_item.get(key, default)\<close>\<close>
  "get_or x d = (case x of None \<Rightarrow> d | Some y \<Rightarrow> y)"

definition recall_at :: "str cell list \<Rightarrow> str list \<Rightarrow> real" where
  \<comment> \<open>\<^verbatim>\<open>len(set(recommended) & set(relevant)) / len(relevant) if relevant else 0\<close>\<close>
  "recall_at recommended relevant =
     (if relevant \<noteq> []
      then real (card (set recommended \<inter> Val ` set relevant)) / real (length relevant)
      else 0)"

fun ap_loop :: "str cell list \<Rightarrow> str list \<Rightarrow> nat \<Rightarrow> nat \<Rightarrow> real \<Rightarrow> real" where
  \<comment> \<open>the loop \<^verbatim>\<open>for i, rec_item in enumerate(recommended_items)\<close>, with its three variables\<close>
  "ap_loop [] relevant i relevant_count avg_precision = avg_precision"
| "ap_loop (rec_item # rest) relevant i relevant_count avg_precision =
     (if rec_item \<in> Val ` set relevant
      then ap_loop rest relevant (i + 1) (relevant_count + 1)
             (avg_precision + real (relevant_count + 1) / real (i + 1))
      else ap_loop rest relevant (i + 1) relevant_count avg_precision)"

definition average_precision :: "str cell list \<Rightarrow> str list \<Rightarrow> real" where
  "average_precision recommended relevant =
     (if relevant \<noteq> [] then ap_loop recommended relevant 0 0 0 / real (length relevant) else 0)"

definition mean :: "real list \<Rightarrow> real" where
  \<comment> \<open>\<^verbatim>\<open>sum(xs) / len(xs) if xs else 0\<close>\<close>
  "mean xs = (if xs \<noteq> [] then sum_list xs / real (length xs) else 0)"

definition relevant_items :: "test_item \<Rightarrow> str list" where
  \<comment> \<open>the two record shapes of \<^verbatim>\<open>SHLRecommender.evaluate\<close>\<close>
  "relevant_items t =
     (if expected_assessments t \<noteq> None then get_or (expected_assessments t) []
      else get_or (relevant_ids t) [])"

definition field_to_match :: "test_item \<Rightarrow> recommendation \<Rightarrow> str cell" where
  "field_to_match t = (if expected_assessments t \<noteq> None then rec_name else rec_id)"

fun evaluate_loop ::
  "library \<Rightarrow> SHLRecommender \<Rightarrow> int \<Rightarrow> test_item list \<Rightarrow> real list \<Rightarrow> real list
     \<Rightarrow> error + (real list \<times> real list)" where
  "evaluate_loop L self k [] recalls avg_precisions = Inr (recalls, avg_precisions)"
| "evaluate_loop L self k (t # rest) recalls avg_precisions =
     (if get_or (t_query t) [] = [] \<or> relevant_items t = []
      then evaluate_loop L self k rest recalls avg_precisions
      else (case recommend L self (get_or (t_query t) []) k of
              Inl e \<Rightarrow> Inl e
            | Inr recommendations \<Rightarrow>
                evaluate_loop L self k rest
                  (recalls @ [recall_at (map (field_to_match t) recommendations) (relevant_items t)])
                  (avg_precisions @
                     [average_precision (map (field_to_match t) recommendations) (relevant_items t)])))"

definition evaluate ::
  "library \<Rightarrow> SHLRecommender \<Rightarrow> test_item list \<Rightarrow> int \<Rightarrow> error + (real \<times> real)" where
  "evaluate L self test_queries k =
     (if test_queries = [] then Inr (0, 0)
      else (case evaluate_loop L self k test_queries [] [] of
              Inl e \<Rightarrow> Inl e
            | Inr (recalls, avg_precisions) \<Rightarrow> Inr (mean recalls, mean avg_precisions)))"

fun metrics_loop ::
  "library \<Rightarrow> SHLRecommender \<Rightarrow> int \<Rightarrow> test_item list \<Rightarrow> real list \<Rightarrow> real list
     \<Rightarrow> error + (real list \<times> real list)" where
  \<comment> \<open>the loop of \<^verbatim>\<open>calculate_metrics\<close> in evaluate.py, which matches by name only\<close>
  "metrics_loop L recommender k [] all_recalls all_precisions = Inr (all_recalls, all_precisions)"
| "metrics_loop L recommender k (t # rest) all_recalls all_precisions =
     (if get_or (t_query t) [] = [] \<or> get_or (expected_assessments t) [] = []
      then metrics_loop L recommender k rest all_recalls all_precisions
      else (case recommend L recommender (get_or (t_query t) []) k of
              Inl e \<Rightarrow> Inl e
            | Inr recommendations \<Rightarrow>
                metrics_loop L recommender k rest
                  (all_recalls @
                     [recall_at (map rec_name recommendations) (get_or (expected_assessments t) [])])
                  (all_precisions @
                     [average_precision (map rec_name recommendations)
                        (get_or (expected_assessments t) [])])))"

definition calculate_metrics ::
  "library \<Rightarrow> SHLRecommender \<Rightarrow> test_item list \<Rightarrow> int \<Rightarrow> error + (real \<times> real)" where
  "calculate_metrics L recommender test_queries k =
     (case metrics_loop L recommender k test_queries [] [] of
        Inl e \<Rightarrow> Inl e
      | Inr (all_recalls, all_precisions) \<Rightarrow> Inr (mean all_recalls, mean all_precisions))"

text \<open>
  The two measures of one query in the words of the specification: the recall is the number of
  expected items among the results over the size of the expected set; the average precision
  adds, at every rank \<open>j\<close> (from 1) that holds an expected item, the number of hits among the
  first \<open>j\<close> ranks divided by \<open>j\<close>, and divides the sum by the size of the expected set.
\<close>

definition hits_so_far :: "str cell list \<Rightarrow> str list \<Rightarrow> nat \<Rightarrow> nat" where
  "hits_so_far ranked expected j = length (filter (\<lambda>x. x \<in> Val ` set expected) (take j ranked))"

definition rank_sum :: "str cell list \<Rightarrow> str list \<Rightarrow> real" where
  "rank_sum ranked expected =
     (\<Sum>j\<leftarrow>[1..<Suc (length ranked)].
         if ranked ! (j - 1) \<in> Val ` set expected
         then real (hits_so_far ranked expected j) / real j else 0)"

definition spec_average_precision :: "str cell list \<Rightarrow> str list \<Rightarrow> real" where
  "spec_average_precision ranked expected = rank_sum ranked expected / real (card (set expected))"

definition spec_recall :: "str cell list \<Rightarrow> str list \<Rightarrow> real" where
  "spec_recall ranked expected =
     real (card (set ranked \<inter> Val ` set expected)) / real (card (set expected))"

text \<open>
  The same two measures over the expected items as the test file lists them: the divisor is
  the length of the list, which is the size of the set when no item is listed twice.
\<close>

definition list_recall :: "str cell list \<Rightarrow> str list \<Rightarrow> real" where
  "list_recall ranked expected =
     real (card (set ranked \<inter> Val ` set expected)) / real (length expected)"

definition list_average_precision :: "str cell list \<Rightarrow> str list \<Rightarrow> real" where
  "list_average_precision ranked expected = rank_sum ranked expected / real (length expected)"

text \<open>
  The harness in the words of the specification. A query counts when its text and its expected
  set are not empty; the two results are the arithmetic means, over the queries that count and
  in their order, of the recall and of the average precision of each.
\<close>

definition counted :: "test_item \<Rightarrow> bool" where
  "counted t = (get_or (t_query t) [] \<noteq> [] \<and> relevant_items t \<noteq> [])"

definition top_k :: "library \<Rightarrow> SHLRecommender \<Rightarrow> int \<Rightarrow> test_item \<Rightarrow> str cell list" where
  \<comment> \<open>the matched field of what the ranker returns for the query of \<open>t\<close>\<close>
  "top_k L self k t =
     (case recommend L self (get_or (t_query t) []) k of
        Inl e \<Rightarrow> [] | Inr recommendations \<Rightarrow> map (field_to_match t) recommendations)"

definition spec_evaluate :: "library \<Rightarrow> SHLRecommender \<Rightarrow> test_item list \<Rightarrow> int \<Rightarrow> real \<times> real" where
  "spec_evaluate L self test_queries k =
     (mean (map (\<lambda>t. recall_at (top_k L self k t) (relevant_items t)) (filter counted test_queries)),
      mean (map (\<lambda>t. average_precision (top_k L self k t) (relevant_items t))
              (filter counted test_queries)))"

text \<open>The same for \<^verbatim>\<open>calculate_metrics\<close>, which knows the record shape with names only.\<close>

definition counted_by_name :: "test_item \<Rightarrow> bool" where
  "counted_by_name t = (get_or (t_query t) [] \<noteq> [] \<and> get_or (expected_assessments t) [] \<noteq> [])"

definition top_k_names :: "library \<Rightarrow> SHLRecommender \<Rightarrow> int \<Rightarrow> test_item \<Rightarrow> str cell list" where
  "top_k_names L self k t =
     (case recommend L self (get_or (t_query t) []) k of
        Inl e \<Rightarrow> [] | Inr recommendations \<Rightarrow> map rec_name recommendations)"

definition spec_metrics :: "library \<Rightarrow> SHLRecommender \<Rightarrow> test_item list \<Rightarrow> int \<Rightarrow> real \<times> real" where
  "spec_metrics L self test_queries k =
     (mean (map (\<lambda>t. recall_at (top_k_names L self k t) (get_or (expected_assessments t) []))
              (filter counted_by_name test_queries)),
      mean (map (\<lambda>t. average_precision (top_k_names L self k t) (get_or (expected_assessments t) []))
              (filter counted_by_name test_queries)))"

section \<open>The service (app.py)\<close>

record query_input =
  qi_query :: str
  qi_num_recommendations :: int

definition QueryInput :: "str \<Rightarrow> int \<Rightarrow> error + query_input" where
  \<comment> \<open>\<^verbatim>\<open>num_recommendations: int = Field(5, ge=1, le=10)\<close>\<close>
  "QueryInput query num_recommendations =
     (if 1 \<le> num_recommendations \<and> num_recommendations \<le> 10
      then Inr \<lparr>qi_query = query, qi_num_recommendations = num_recommendations\<rparr>
      else Inl RequestValidationError)"

definition AssessmentOutput :: "library \<Rightarrow> recommendation \<Rightarrow> error + assessment_output" where
  \<comment> \<open>the declared output model: values of the declared types are taken as they are\<close>
  "AssessmentOutput L r =
     (case (rec_id r, rec_name r, rec_url r, rec_remote_support r, rec_adaptive_irt r,
            rec_test_types r, rec_duration r) of
        (Val i, Val n, Val u, Val rs, Val ai, Val tt, Val d) \<Rightarrow>
          Inr \<lparr>out_id = i, out_name = n, out_url = u, out_remote_support = rs,
               out_adaptive_irt = ai, out_test_types = tt, out_duration = d,
               out_similarity_score = similarity_score r\<rparr>
      | _ \<Rightarrow> coerce_output L r)"

fun assessment_outputs :: "library \<Rightarrow> recommendation list \<Rightarrow> error + assessment_output list" where
  \<comment> \<open>the loop \<^verbatim>\<open>for rec in recommendations\<close> of the handler\<close>
  "assessment_outputs L [] = Inr []"
| "assessment_outputs L (r # rest) =
     (case AssessmentOutput L r of
        Inl e \<Rightarrow> Inl e
      | Inr out \<Rightarrow>
          (case assessment_outputs L rest of Inl e \<Rightarrow> Inl e | Inr outs \<Rightarrow> Inr (out # outs)))"

record recommendation_response =
  resp_query :: str
  resp_recommendations :: "assessment_output list"

definition startup_event :: "library \<Rightarrow> load_outcome \<Rightarrow> SHLRecommender option" where
  \<comment> \<open>the global \<^verbatim>\<open>recommender\<close> after startup: it stays \<^verbatim>\<open>None\<close> when the constructor raises\<close>
  "startup_event L data_file =
     (case SHLRecommender_init L (Some data_file) None of Inl e \<Rightarrow> None | Inr r \<Rightarrow> Some r)"

definition app_recommend ::
  "library \<Rightarrow> SHLRecommender option \<Rightarrow> query_input \<Rightarrow> error + recommendation_response" where
  \<comment> \<open>the handler of \<^verbatim>\<open>POST /recommend\<close>, given the global \<^verbatim>\<open>recommender\<close>\<close>
  "app_recommend L recommender input_data =
     (case recommender of
        None \<Rightarrow> Inl (HTTPException 503)
      | Some r \<Rightarrow>
          (case recommend L r (qi_query input_data) (qi_num_recommendations input_data) of
             Inl e \<Rightarrow> Inl e
           | Inr recommendations \<Rightarrow>
               (case assessment_outputs L recommendations of
                  Inl e \<Rightarrow> Inl e
                | Inr outs \<Rightarrow>
                    Inr \<lparr>resp_query = qi_query input_data, resp_recommendations = outs\<rparr>)))"

definition recommend_get ::
  "library \<Rightarrow> SHLRecommender option \<Rightarrow> str \<Rightarrow> int \<Rightarrow> error + recommendation_response" where
  "recommend_get L recommender query num_recommendations =
     (case QueryInput query num_recommendations of
        Inl e \<Rightarrow> Inl e
      | Inr input_data \<Rightarrow> app_recommend L recommender input_data)"

section \<open>Notions used in the statements\<close>

definition unfitted :: "SHLRecommender \<Rightarrow> bool" where
  \<comment> \<open>the guard at the head of \<^verbatim>\<open>recommend\<close>\<close>
  "unfitted self = (data_df self = None \<or> tfidf_vectorizer self = None \<or> tfidf_matrix self = None)"

text \<open>
  Names for what \<^verbatim>\<open>recommend\<close> computes on the way: the similarities of a query, the indices
  for which the loop appends a recommendation, and the documents with a similarity above zero
  in catalog order. A recommender is well formed when its document matrix has one row per row
  of its frame, as \<^verbatim>\<open>fit_transform\<close> on one text per row leaves it.
\<close>

definition similarities :: "library \<Rightarrow> SHLRecommender \<Rightarrow> str \<Rightarrow> real list" where
  "similarities L self query =
     (case (data_df self, tfidf_vectorizer self, tfidf_matrix self) of
        (Some df, Some v, Some m) \<Rightarrow>
          cosine_similarity (transform (unicode L) v (preprocess_query (unicode L) query)) m
      | _ \<Rightarrow> [])"

definition ranked_indices :: "library \<Rightarrow> SHLRecommender \<Rightarrow> str \<Rightarrow> int \<Rightarrow> nat list" where
  "ranked_indices L self query k =
     filter (\<lambda>i. 0 < similarities L self query ! i)
       (top_indices (tie_order L) (similarities L self query) k)"

definition positive_docs :: "library \<Rightarrow> SHLRecommender \<Rightarrow> str \<Rightarrow> nat list" where
  "positive_docs L self query =
     filter (\<lambda>i. 0 < similarities L self query ! i) [0..<length (similarities L self query)]"

definition well_formed :: "SHLRecommender \<Rightarrow> bool" where
  "well_formed self =
     (case (data_df self, tfidf_matrix self) of
        (Some df, Some m) \<Rightarrow> length m = length (df_rows df)
      | _ \<Rightarrow> True)"

definition result_at :: "library \<Rightarrow> SHLRecommender \<Rightarrow> str \<Rightarrow> nat \<Rightarrow> recommendation" where
  \<comment> \<open>the recommendation the loop builds for the row \<open>idx\<close>, for a fitted recommender and an
      index in range\<close>
  "result_at L self query idx =
     (case data_df self of
        Some df \<Rightarrow> make_recommendation df (df_rows df ! idx) (similarities L self query ! idx))"

text \<open>
  The order of the results: a higher similarity first; of two equal similarities the one that
  the sort left later first, that is, the higher rank of the tie order first and, at equal
  rank, the higher index first.
\<close>

definition sorts_before :: "('a \<Rightarrow> 'k::linorder) \<Rightarrow> ('a \<Rightarrow> 'a \<Rightarrow> bool) \<Rightarrow> 'a \<Rightarrow> 'a \<Rightarrow> bool" where
  \<comment> \<open>by the key, and by the order \<open>R\<close> at equal keys\<close>
  "sorts_before f R a b = (f a < f b \<or> (f a = f b \<and> R a b))"

definition ranks_before :: "tie_order \<Rightarrow> real list \<Rightarrow> nat \<Rightarrow> nat \<Rightarrow> bool" where
  "ranks_before tie sims i j =
     (sims ! j < sims ! i
      \<or> (sims ! i = sims ! j \<and> (tie sims j < tie sims i \<or> (tie sims j = tie sims i \<and> j < i))))"

section \<open>Small instances\<close>

text \<open>
  A library for the examples: a database that knows no alphanumeric or whitespace code point
  from 128 on (the examples are ASCII, where the database is not consulted), a sort that keeps
  equal values in index order, a \<^verbatim>\<open>fit_transform\<close> that fails, and an output model that
  refuses what it is asked to coerce.
\<close>

definition ex_db :: unicode_db where
  "ex_db = \<lparr>uni_alnum = (\<lambda>c. False), uni_space = (\<lambda>c. False), uni_lower = (\<lambda>s. s)\<rparr>"

text \<open>
  A database that knows, from 128 on, the capital and the small e with acute accent (201 and
  233) and the no-break space (160).
\<close>

definition ex_latin :: unicode_db where
  "ex_latin =
     \<lparr>uni_alnum = (\<lambda>c. c = 201 \<or> c = 233), uni_space = (\<lambda>c. c = 160),
      uni_lower = map (\<lambda>c. if c = 201 then 233 else lower_ascii c)\<rparr>"

definition ex_lib :: library where
  "ex_lib =
     \<lparr>unicode = ex_db, tie_order = (\<lambda>xs i. 0), fit_transform = (\<lambda>texts. Inl ValueError),
      coerce_output = (\<lambda>r. Inl ResponseValidationError)\<rparr>"

text \<open>
  The same library with a sort that leaves five indices of equal value in the order
  1, 3, 2, 4, 0 of their ranks, so that the values 1, 1, 1, 1, 0 are sorted to the indices
  4, 0, 2, 1, 3.
\<close>

definition ex_tie :: tie_order where
  "ex_tie xs i = (if i < 5 then [1, 3, 2, 4, 0] ! i else 0)"

definition ex_lib_tie :: library where
  "ex_lib_tie = ex_lib\<lparr>tie_order := ex_tie\<rparr>"

definition ex_row :: "string \<Rightarrow> string \<Rightarrow> assessment" where
  "ex_row i n =
     \<lparr>a_id = Val (py i), a_name = Val (py n), a_url = NaN, a_remote_support = NaN,
      a_adaptive_irt = NaN, a_test_types = NaN, a_description = NaN, a_duration = NaN,
      a_test_types_str = NaN, a_remote_support_display = NaN, a_adaptive_irt_display = NaN,
      a_combined_features = NaN\<rparr>"

definition ex_frame :: "assessment list \<Rightarrow> dataframe" where
  "ex_frame rs = \<lparr>df_columns = [''id'', ''name''], df_rows = rs\<rparr>"

definition ex_result :: "string \<Rightarrow> string \<Rightarrow> real \<Rightarrow> recommendation" where
  \<comment> \<open>the recommendation for a row of such a frame\<close>
  "ex_result i n score =
     \<lparr>rec_id = Val (py i), rec_name = Val (py n), rec_url = Val [], rec_remote_support = Val False,
      rec_adaptive_irt = Val False, rec_test_types = Val [], rec_description = Val [],
      rec_duration = Val 0, similarity_score = score\<rparr>"

definition ex_vectorizer :: vectorizer where
  "ex_vectorizer =
     \<lparr>vocabulary = [py ''manager'', py ''sales'', py ''software'', py ''team''],
      idf = [1, 1, 1, 1], stop_words = [py ''the'']\<rparr>"

text \<open>Four rows; the rows C and D have the same vector.\<close>

definition ex_recommender :: SHLRecommender where
  "ex_recommender =
     \<lparr>tfidf_vectorizer = Some ex_vectorizer,
      tfidf_matrix = Some [[1 / 2, 1 / 2, 1 / 2, 1 / 2], [0, 0, 1, 0], [0, 1, 0, 0], [0, 1, 0, 0]],
      data_df = Some (ex_frame [ex_row ''1'' ''A'', ex_row ''2'' ''B'', ex_row ''3'' ''C'',
                                ex_row ''4'' ''D''])\<rparr>"

text \<open>Five rows; the first four have the same vector.\<close>

definition ex_tied :: SHLRecommender where
  "ex_tied =
     \<lparr>tfidf_vectorizer = Some ex_vectorizer,
      tfidf_matrix = Some [[0, 1, 0, 0], [0, 1, 0, 0], [0, 1, 0, 0], [0, 1, 0, 0], [0, 0, 1, 0]],
      data_df = Some (ex_frame [ex_row ''1'' ''A'', ex_row ''2'' ''B'', ex_row ''3'' ''C'',
                                ex_row ''4'' ''D'', ex_row ''5'' ''E''])\<rparr>"

text \<open>
  The catalog of the one document \<^verbatim>\<open>alpha beta\<close>: its features are the two words and their
  bigram, each with count 1 and idf 1, and each entry of its normalised row is 1 divided by the
  binary64 square root of 3.
\<close>

definition ex_pair :: SHLRecommender where
  "ex_pair =
     \<lparr>tfidf_vectorizer =
        Some \<lparr>vocabulary = [py ''alpha'', py ''alpha beta'', py ''beta''], idf = [1, 1, 1],
              stop_words = []\<rparr>,
      tfidf_matrix =
        Some [[5200308914369309 / 2 ^ 53, 5200308914369309 / 2 ^ 53, 5200308914369309 / 2 ^ 53]],
      data_df = Some (ex_frame [ex_row ''1'' ''A''])\<rparr>"

definition ex_tests :: "test_item list" where
  "ex_tests =
     [\<lparr>t_query = Some (py ''The Sales!''), expected_assessments = Some [py ''D'', py ''A''],
       relevant_ids = None\<rparr>,
      \<lparr>t_query = Some [], expected_assessments = Some [py ''A''], relevant_ids = None\<rparr>,
      \<lparr>t_query = Some (py ''The Sales!''), expected_assessments = Some [], relevant_ids = None\<rparr>,
      \<lparr>t_query = Some (py ''The Sales!''), expected_assessments = None,
       relevant_ids = Some [py ''3'']\<rparr>]"

text \<open>A test query that lists the expected name D twice.\<close>

definition ex_repeated :: test_item where
  "ex_repeated =
     \<lparr>t_query = Some (py ''The Sales!''), expected_assessments = Some [py ''D'', py ''D''],
      relevant_ids = None\<rparr>"

section \<open>Rounding at some numbers\<close>

lemma ulp_eq:
  assumes "2 powr of_int e \<le> \<bar>x\<bar>" "\<bar>x\<bar> < 2 powr (of_int e + 1)"
  shows "ulp x = 2 powr (of_int e - 52)"
proof -
  have "0 < \<bar>x\<bar>" using assms(1) by (smt (verit) powr_gt_zero)
  then have "\<lfloor>log 2 \<bar>x\<bar>\<rfloor> = e"
    using assms by (simp add: floor_log_eq_powr_iff)
  then show ?thesis by (simp add: ulp_def)
qed

lemma fl_0: "fl 0 = 0"
  by (simp add: fl_def)

lemma fl_in_binade:
  assumes "2 powr of_int e \<le> x" "x < 2 powr (of_int e + 1)"
  shows "fl x = of_int (round_half_even (x / 2 powr (of_int e - 52))) * 2 powr (of_int e - 52)"
proof -
  have pos: "0 < x" using assms(1) by (smt (verit) powr_gt_zero)
  then have "ulp x = 2 powr (of_int e - 52)" using assms by (intro ulp_eq) simp_all
  then show ?thesis using pos by (simp add: fl_def)
qed

lemma fl_1_2: "1 \<le> x \<Longrightarrow> x < 2 \<Longrightarrow> fl x = of_int (round_half_even (x * 2 ^ 52)) / 2 ^ 52"
  using fl_in_binade [of 0 x] by (simp add: powr_neg_numeral)

lemma fl_half_1: "1 / 2 \<le> x \<Longrightarrow> x < 1 \<Longrightarrow> fl x = of_int (round_half_even (x * 2 ^ 53)) / 2 ^ 53"
  using fl_in_binade [of "-1" x] by (simp add: powr_neg_numeral powr_minus_divide)

lemma fl_quarter_half:
  "1 / 4 \<le> x \<Longrightarrow> x < 1 / 2 \<Longrightarrow> fl x = of_int (round_half_even (x * 2 ^ 54)) / 2 ^ 54"
  using fl_in_binade [of "-2" x] by (simp add: powr_neg_numeral powr_minus_divide)

lemma fl_2_4: "2 \<le> x \<Longrightarrow> x < 4 \<Longrightarrow> fl x = of_int (round_half_even (x * 2 ^ 51)) / 2 ^ 51"
  using fl_in_binade [of 1 x] by (simp add: powr_neg_numeral)

lemma round_half_even_of_int: "round_half_even (of_int n) = n"
  by (simp add: round_half_even_def)

lemma fl_1: "fl 1 = 1"
  using fl_1_2 [of 1] round_half_even_of_int [of "2 ^ 52"] by simp

lemma fl_2: "fl 2 = 2"
  using fl_2_4 [of 2] round_half_even_of_int [of "2 ^ 52"] by simp

lemma fl_3: "fl 3 = 3"
  using fl_2_4 [of 3] round_half_even_of_int [of "3 * 2 ^ 51"] by simp

lemma fl_half: "fl (1 / 2) = 1 / 2"
  using fl_half_1 [of "1 / 2"] round_half_even_of_int [of "2 ^ 52"] by simp

lemma fl_quarter: "fl (1 / 4) = 1 / 4"
  using fl_quarter_half [of "1 / 4"] round_half_even_of_int [of "2 ^ 52"] by simp

lemma fl_three_quarters: "fl (3 / 4) = 3 / 4"
  using fl_half_1 [of "3 / 4"] round_half_even_of_int [of "3 * 2 ^ 51"] by simp


lemma round_half_even_between:
  assumes "of_int n - 1 / 2 < x" "x < of_int n + 1 / 2"
  shows "round_half_even x = n"
proof (cases "of_int n \<le> x")
  case True
  then have "\<lfloor>x\<rfloor> = n" using assms by (intro floor_unique) auto
  then show ?thesis using assms by (simp add: round_half_even_def)
next
  case False
  then have "\<lfloor>x\<rfloor> = n - 1" using assms by (intro floor_unique) auto
  then show ?thesis using assms False by (simp add: round_half_even_def)
qed

lemma sqrt_between:
  assumes "0 \<le> a" "a\<^sup>2 < y" "y < b\<^sup>2" "0 \<le> b"
  shows "a < sqrt y \<and> sqrt y < b"
proof -
  have "0 \<le> y" using assms(2) by (smt (verit) zero_le_power2)
  have "a < sqrt y" using assms(1,2) by (simp add: real_less_rsqrt)
  moreover have "sqrt y < b" using assms(3,4) \<open>0 \<le> y\<close> by (simp add: real_less_lsqrt)
  ultimately show ?thesis by simp
qed

lemma fsqrt_3: "fsqrt 3 = 7800463371553962 / 2 ^ 52"
proof -
  have b: "(7800463371553962 - 1 / 2) / 2 ^ 52 < sqrt 3 \<and> sqrt 3 < (7800463371553962 + 1 / 2) / 2 ^ 52"
    by (rule sqrt_between) (simp_all add: power2_eq_square)
  then have r: "round_half_even (sqrt 3 * 2 ^ 52) = 7800463371553962"
    by (intro round_half_even_between) (simp_all add: field_simps)
  have "1 \<le> sqrt 3" "sqrt 3 < 2"
    by (simp_all add: real_less_lsqrt)
  then show ?thesis using r by (simp add: fsqrt_def fl_1_2)
qed


lemma ex_x: "fdiv 1 (7800463371553962 / 2 ^ 52) = 5200308914369309 / 2 ^ 53"
proof -
  have "round_half_even (1 / (7800463371553962 / 2 ^ 52) * 2 ^ 53) = 5200308914369309"
    by (intro round_half_even_between) (simp_all add: field_simps)
  then show ?thesis by (simp add: fdiv_def fl_half_1)
qed

lemma ex_s:
  "fmul (5200308914369309 / 2 ^ 53) (5200308914369309 / 2 ^ 53) = 6004799503160663 / 2 ^ 54"
proof -
  have "round_half_even (5200308914369309 / 2 ^ 53 * (5200308914369309 / 2 ^ 53) * 2 ^ 54)
        = 6004799503160663"
    by (intro round_half_even_between) (simp_all add: field_simps)
  then show ?thesis by (simp add: fmul_def fl_quarter_half)
qed

lemma ex_s1: "fadd 0 (6004799503160663 / 2 ^ 54) = 6004799503160663 / 2 ^ 54"
  using fl_quarter_half [of "6004799503160663 / 2 ^ 54"]
    round_half_even_of_int [of 6004799503160663]
  by (simp add: fadd_def)

lemma ex_s2:
  "fadd (6004799503160663 / 2 ^ 54) (6004799503160663 / 2 ^ 54) = 6004799503160663 / 2 ^ 53"
  using fl_half_1 [of "6004799503160663 / 2 ^ 53"]
    round_half_even_of_int [of 6004799503160663]
  by (simp add: fadd_def)

lemma ex_s3:
  "fadd (6004799503160663 / 2 ^ 53) (6004799503160663 / 2 ^ 54) = 4503599627370497 / 2 ^ 52"
proof -
  have "round_half_even ((6004799503160663 / 2 ^ 53 + 6004799503160663 / 2 ^ 54) * 2 ^ 52)
        = 4503599627370497"
    by (intro round_half_even_between) (simp_all add: field_simps)
  then show ?thesis by (simp add: fadd_def fl_1_2)
qed

lemma ex_sqrt_u: "fsqrt (4503599627370497 / 2 ^ 52) = 1"
proof -
  have b: "(2 ^ 52 - 1 / 2) / 2 ^ 52 < sqrt (4503599627370497 / 2 ^ 52)
           \<and> sqrt (4503599627370497 / 2 ^ 52) < (2 ^ 52 + 1 / 2) / 2 ^ 52"
    by (rule sqrt_between) (simp_all add: power2_eq_square)
  then have r: "round_half_even (sqrt (4503599627370497 / 2 ^ 52) * 2 ^ 52) = 2 ^ 52"
    by (intro round_half_even_between) (simp_all add: field_simps)
  have "1 \<le> sqrt (4503599627370497 / 2 ^ 52)" "sqrt (4503599627370497 / 2 ^ 52) < 2"
    using b by (simp_all add: real_le_rsqrt real_less_lsqrt)
  then show ?thesis using r by (simp add: fsqrt_def fl_1_2)
qed

lemma ex_x1: "fdiv (5200308914369309 / 2 ^ 53) 1 = 5200308914369309 / 2 ^ 53"
  using fl_half_1 [of "5200308914369309 / 2 ^ 53"]
    round_half_even_of_int [of 5200308914369309]
  by (simp add: fdiv_def)

section \<open>Properties of the ranker\<close>

subsection \<open>Queries without a term of the vocabulary\<close>

lemma preprocess_query_Nil: "preprocess_query U [] = []"
  by (simp add: preprocess_query_def str_lower_def sub_punct_def str_strip_def)

lemma analyze_Nil: "analyze U v [] = []"
  by (simp add: analyze_def str_lower_def tokenize_def word_ngrams_def ngrams_of_def)

lemma sum_squares_zeros: "\<forall>a\<in>set x. a = 0 \<Longrightarrow> sum_squares x = 0"
proof -
  have "\<forall>a\<in>set x. a = 0 \<Longrightarrow> foldl (\<lambda>acc a. fadd acc (fmul a a)) 0 x = 0"
    by (induction x) (simp_all add: fadd_def fmul_def fl_0)
  then show "\<forall>a\<in>set x. a = 0 \<Longrightarrow> sum_squares x = 0" by (simp add: sum_squares_def)
qed

lemma l2_normalize_zeros: "\<forall>a\<in>set x. a = 0 \<Longrightarrow> l2_normalize x = x"
  by (simp add: l2_normalize_def sum_squares_zeros)

lemma dot_zeros: "\<forall>a\<in>set x. a = 0 \<Longrightarrow> dot x y = 0"
proof -
  have "\<forall>a\<in>set x. a = 0 \<Longrightarrow> foldl (\<lambda>acc (a, b). fadd acc (fmul a b)) 0 (zip x y) = 0"
    by (induction x arbitrary: y)
      (auto simp: zip_Cons1 fadd_def fmul_def fl_0 split: list.splits)
  then show "\<forall>a\<in>set x. a = 0 \<Longrightarrow> dot x y = 0" by (simp add: dot_def)
qed

lemma transform_zero:
  assumes "\<forall>t\<in>set (vocabulary v). t \<notin> set (analyze U v doc)"
  shows "\<forall>a\<in>set (transform U v doc). a = 0"
proof -
  let ?x = "map2 (\<lambda>t w. fmul (real (count_list (analyze U v doc) t)) w) (vocabulary v) (idf v)"
  have z: "\<forall>a\<in>set ?x. a = 0"
    using assms by (auto simp: count_list_0_iff fmul_def fl_0 dest: set_zip_leftD)
  then have "l2_normalize ?x = ?x" by (rule l2_normalize_zeros)
  then show ?thesis using z by (simp add: transform_def)
qed

lemma cosine_zero:
  assumes "\<forall>a\<in>set q. a = 0"
  shows "\<forall>s\<in>set (cosine_similarity q m). s = 0"
  using assms by (simp add: cosine_similarity_def l2_normalize_zeros dot_zeros)

lemma collect_none: "\<forall>i\<in>set idxs. \<not> sims ! i > 0 \<Longrightarrow> collect df sims idxs = Inr []"
  by (induction idxs) auto

lemma set_argsort: "set (argsort tie xs) = {..<length xs}"
proof -
  have "map snd (zip xs [0..<length xs]) = [0..<length xs]"
    by (rule map_snd_zip) simp
  then have "snd ` set (zip xs [0..<length xs]) = set [0..<length xs]"
    by (metis set_map)
  then show ?thesis
    by (simp add: argsort_def lessThan_atLeast0)
qed

lemma set_slice_last: "set (slice_last k xs) \<subseteq> set xs"
  by (auto simp: slice_last_def Let_def dest: in_set_dropD)

lemma set_top_indices: "set (top_indices tie sims k) \<subseteq> {..<length sims}"
  using set_slice_last [of k "argsort tie sims"] by (simp add: top_indices_def set_argsort)

lemma recommend_no_overlap:
  assumes "\<forall>v. tfidf_vectorizer self = Some v \<longrightarrow>
             (\<forall>t\<in>set (vocabulary v).
                t \<notin> set (analyze (unicode L) v (preprocess_query (unicode L) query)))"
  shows "recommend L self query k = Inr []"
proof (cases "data_df self")
  case None
  then show ?thesis by (simp add: recommend_def)
next
  case (Some df)
  show ?thesis
  proof (cases "tfidf_vectorizer self")
    case None
    then show ?thesis using Some by (simp add: recommend_def)
  next
    case v: (Some v)
    show ?thesis
    proof (cases "tfidf_matrix self")
      case None
      then show ?thesis using Some v by (simp add: recommend_def)
    next
      case m: (Some m)
      let ?sims = "cosine_similarity (transform (unicode L) v (preprocess_query (unicode L) query)) m"
      have "\<forall>s\<in>set ?sims. s = 0"
        using assms v by (intro cosine_zero transform_zero) simp
      then have "\<forall>i\<in>set (top_indices (tie_order L) ?sims k). \<not> ?sims ! i > 0"
        using set_top_indices [of "tie_order L" ?sims k] nth_mem [of _ ?sims]
        by (fastforce simp: subset_iff)
      then have "collect df ?sims (top_indices (tie_order L) ?sims k) = Inr []"
        by (rule collect_none)
      then show ?thesis using Some v m by (simp add: recommend_def)
    qed
  qed
qed

text \<open>
  C7: for every recommender and every number of recommendations, the empty query returns the
  empty list and no error: it has no term at all, so its vector is zero, no document has a
  similarity above zero, and the loop over the top indices appends nothing.
\<close>

theorem recommend_empty_query: "recommend L self [] k = Inr []"
  by (rule recommend_no_overlap) (simp add: preprocess_query_Nil analyze_Nil)

section \<open>The two normalisers\<close>

text \<open>
  C9: on every text, the normaliser applied to the catalog descriptions when the index is
  built (\<open>clean_text\<close>) and the one applied to the query (\<open>preprocess_query\<close>) return the
  same string.
\<close>

theorem clean_text_eq_preprocess_query: "clean_text U (PyStr text) = preprocess_query U text"
  by (simp add: preprocess_query_def)

section \<open>Calls without a fitted index\<close>

lemma recommend_unfitted: "unfitted self \<Longrightarrow> recommend L self query k = Inr []"
  by (auto simp: unfitted_def recommend_def split: option.splits)

lemma mean_zeros: "\<forall>x\<in>set xs. x = 0 \<Longrightarrow> mean xs = 0"
proof -
  assume "\<forall>x\<in>set xs. x = 0"
  then have "sum_list xs = 0" by (induction xs) auto
  then show ?thesis by (simp add: mean_def)
qed

lemma recall_at_Nil: "recall_at [] relevant = 0"
  by (simp add: recall_at_def)

lemma average_precision_Nil: "average_precision [] relevant = 0"
  by (simp add: average_precision_def)

lemma evaluate_loop_unfitted:
  assumes "unfitted self"
  shows "\<forall>x\<in>set rs. x = 0 \<Longrightarrow> \<forall>x\<in>set aps. x = 0 \<Longrightarrow>
         \<exists>rs' aps'. evaluate_loop L self k ts rs aps = Inr (rs', aps')
            \<and> (\<forall>x\<in>set rs'. x = 0) \<and> (\<forall>x\<in>set aps'. x = 0)"
proof (induction ts arbitrary: rs aps)
  case Nil
  then show ?case by simp
next
  case (Cons t ts)
  show ?case
  proof (cases "get_or (t_query t) [] = [] \<or> relevant_items t = []")
    case True
    then show ?thesis using Cons by simp
  next
    case False
    have "\<forall>x\<in>set (rs @ [0]). x = 0" "\<forall>x\<in>set (aps @ [0]). x = 0"
      using Cons.prems by auto
    from Cons.IH [OF this] show ?thesis
      using False by (simp add: recommend_unfitted [OF assms] recall_at_Nil average_precision_Nil)
  qed
qed

lemma metrics_loop_unfitted:
  assumes "unfitted self"
  shows "\<forall>x\<in>set rs. x = 0 \<Longrightarrow> \<forall>x\<in>set aps. x = 0 \<Longrightarrow>
         \<exists>rs' aps'. metrics_loop L self k ts rs aps = Inr (rs', aps')
            \<and> (\<forall>x\<in>set rs'. x = 0) \<and> (\<forall>x\<in>set aps'. x = 0)"
proof (induction ts arbitrary: rs aps)
  case Nil
  then show ?case by simp
next
  case (Cons t ts)
  show ?case
  proof (cases "get_or (t_query t) [] = [] \<or> get_or (expected_assessments t) [] = []")
    case True
    then show ?thesis using Cons by simp
  next
    case False
    have "\<forall>x\<in>set (rs @ [0]). x = 0" "\<forall>x\<in>set (aps @ [0]). x = 0"
      using Cons.prems by auto
    from Cons.IH [OF this] show ?thesis
      using False by (simp add: recommend_unfitted [OF assms] recall_at_Nil average_precision_Nil)
  qed
qed

lemma evaluate_unfitted: "unfitted self \<Longrightarrow> evaluate L self ts k = Inr (0, 0)"
  using evaluate_loop_unfitted [of self "[]" "[]" L k ts]
  by (auto simp: evaluate_def mean_zeros)

lemma calculate_metrics_unfitted: "unfitted self \<Longrightarrow> calculate_metrics L self ts k = Inr (0, 0)"
  using metrics_loop_unfitted [of self "[]" "[]" L k ts]
  by (auto simp: calculate_metrics_def mean_zeros)

text \<open>
  C1, as stated, fails: on the recommender as the constructor leaves it when no data was
  loaded, \<open>recommend\<close> returns the empty list, a normal result, and not the error of an
  unavailable service.
\<close>

theorem unfitted_counterexample:
  "recommend ex_lib SHLRecommender_new (py ''sales manager'') 5 = Inr []
   \<and> recommend ex_lib SHLRecommender_new (py ''sales manager'') 5 \<noteq> Inl ServiceUnavailable"
  by (simp add: recommend_def SHLRecommender_new_def)

text \<open>
  C1, amended: on a recommender whose data, vectorizer or document matrix is absent,
  \<open>recommend\<close> returns the empty list and both evaluation functions return the means
  \<open>(0, 0)\<close>, for every query, test set and \<open>k\<close>; the service handler fails with
  ServiceUnavailable (status 503) when there is no recommender object.
\<close>

theorem unfitted_returns_empty:
  assumes "data_df self = None \<or> tfidf_vectorizer self = None \<or> tfidf_matrix self = None"
  shows "recommend L self query k = Inr []
     \<and> evaluate L self test_queries k = Inr (0, 0)
     \<and> calculate_metrics L self test_queries k = Inr (0, 0)
     \<and> app_recommend L None input_data = Inl ServiceUnavailable"
proof -
  have u: "unfitted self" using assms by (simp add: unfitted_def)
  show ?thesis
    by (simp add: recommend_unfitted [OF u] evaluate_unfitted [OF u]
        calculate_metrics_unfitted [OF u] app_recommend_def)
qed

theorem unfitted_returns_empty_witness:
  "recommend ex_lib SHLRecommender_new (py ''sales manager'') 5 = Inr []
   \<and> evaluate ex_lib SHLRecommender_new
        [\<lparr>t_query = Some (py ''sales manager''), expected_assessments = Some [py ''A''],
          relevant_ids = None\<rparr>] 3
      = Inr (0, 0)
   \<and> app_recommend ex_lib None \<lparr>qi_query = py ''sales manager'', qi_num_recommendations = 5\<rparr>
      = Inl ServiceUnavailable"
  using unfitted_returns_empty [where self = SHLRecommender_new and L = ex_lib
      and query = "py ''sales manager''" and k = 5
      and input_data = "\<lparr>qi_query = py ''sales manager'', qi_num_recommendations = 5\<rparr>"]
    unfitted_returns_empty [where self = SHLRecommender_new and L = ex_lib and k = 3
      and test_queries =
      "[\<lparr>t_query = Some (py ''sales manager''), expected_assessments = Some [py ''A''],
         relevant_ids = None\<rparr>]"]
  by (simp add: SHLRecommender_new_def)

section \<open>Building the index from an empty or unreadable catalog\<close>

text \<open>
  C2, as stated, fails: the constructor on the empty catalog \<^verbatim>\<open>[]\<close> returns a recommender
  and raises nothing.
\<close>

theorem build_index_empty_counterexample:
  "SHLRecommender_init ex_lib (Some (Parsed empty_frame)) None = Inr SHLRecommender_new"
  by (simp add: SHLRecommender_init_def SHLRecommender_load_data_def df_empty_def empty_frame_def)

text \<open>
  C2, amended: a missing file, invalid JSON, any other exception while loading, and the empty
  catalog all give the empty frame; and for every catalog input that loads as an empty frame
  the constructor does not fail: it returns the recommender with no data, no vectorizer and
  no document matrix, whatever fitting would do, and the service starts with that
  recommender.
\<close>

theorem build_index_empty_no_state:
  assumes "df_empty (load_data data_file)"
  shows "SHLRecommender_init L (Some data_file) None = Inr SHLRecommender_new
     \<and> startup_event L data_file = Some SHLRecommender_new
     \<and> unfitted SHLRecommender_new
     \<and> data_df SHLRecommender_new = None
     \<and> tfidf_vectorizer SHLRecommender_new = None
     \<and> tfidf_matrix SHLRecommender_new = None
     \<and> df_empty (load_data FileNotFoundError) \<and> df_empty (load_data JSONDecodeError)
     \<and> df_empty (load_data OtherException) \<and> df_empty (load_data (Parsed empty_frame))"
proof -
  have "SHLRecommender_init L (Some data_file) None = Inr SHLRecommender_new"
    using assms by (simp add: SHLRecommender_init_def SHLRecommender_load_data_def)
  moreover from this have "startup_event L data_file = Some SHLRecommender_new"
    by (simp add: startup_event_def)
  ultimately show ?thesis
    by (simp add: SHLRecommender_new_def df_empty_def unfitted_def empty_frame_def)
qed

theorem build_index_empty_no_state_witness:
  "SHLRecommender_init ex_lib (Some (Parsed empty_frame)) None = Inr SHLRecommender_new
   \<and> startup_event ex_lib JSONDecodeError = Some SHLRecommender_new"
  using build_index_empty_no_state [where data_file = "Parsed empty_frame" and L = ex_lib]
    build_index_empty_no_state [where data_file = JSONDecodeError and L = ex_lib]
  by (simp add: df_empty_def empty_frame_def)

section \<open>Order and number of the results\<close>

lemma collect_Inr:
  "\<forall>i\<in>set idxs. i < length (df_rows df) \<Longrightarrow>
   collect df sims idxs =
     Inr (map (\<lambda>i. make_recommendation df (df_rows df ! i) (sims ! i))
            (filter (\<lambda>i. 0 < sims ! i) idxs))"
  by (induction idxs) auto

lemma insort_key_sorts_before:
  "sorted_wrt (sorts_before f R) zs \<Longrightarrow> \<forall>z'\<in>set zs. R z z' \<Longrightarrow>
   sorted_wrt (sorts_before f R) (insort_key f z zs)"
proof (induction zs)
  case Nil
  then show ?case by simp
next
  case (Cons y ys)
  show ?case
  proof (cases "f z \<le> f y")
    case True
    have "sorts_before f R z y" using True Cons.prems(2) by (auto simp: sorts_before_def)
    moreover have "\<forall>y'\<in>set ys. sorts_before f R z y'"
    proof
      fix y' assume y': "y' \<in> set ys"
      then have "sorts_before f R y y'" using Cons.prems(1) by simp
      then have "f y \<le> f y'" by (auto simp: sorts_before_def)
      then show "sorts_before f R z y'"
        using True Cons.prems(2) y' by (auto simp: sorts_before_def)
    qed
    ultimately show ?thesis using True Cons.prems(1) by simp
  next
    case False
    have ih: "sorted_wrt (sorts_before f R) (insort_key f z ys)"
      using Cons by simp
    have "sorts_before f R y z" using False by (auto simp: sorts_before_def)
    then have "\<forall>y'\<in>set (insort_key f z ys). sorts_before f R y y'"
      using Cons.prems(1) by (auto simp: set_insort_key)
    then show ?thesis using False ih by simp
  qed
qed

lemma sort_key_sorts_before:
  "sorted_wrt R zs \<Longrightarrow> sorted_wrt (sorts_before f R) (sort_key f zs)"
proof (induction zs)
  case Nil
  then show ?case by simp
next
  case (Cons z zs)
  then have "sorted_wrt (sorts_before f R) (sort_key f zs)" by simp
  moreover have "\<forall>z'\<in>set (sort_key f zs). R z z'"
    using Cons.prems by auto
  ultimately show ?case by (simp add: insort_key_sorts_before)
qed

lemma argsort_ranked: "sorted_wrt (\<lambda>i j. ranks_before tie xs j i) (argsort tie xs)"
proof -
  let ?zs = "zip xs [0..<length xs]"
  let ?t = "\<lambda>p::real \<times> nat. tie xs (snd p)"
  let ?R0 = "\<lambda>(a::real \<times> nat) b. snd a < snd b"
  let ?S = "sort_key fst (sort_key ?t ?zs)"
  have "map snd ?zs = [0..<length xs]" by (rule map_snd_zip) simp
  then have "sorted_wrt (<) (map snd ?zs)" by (simp add: sorted_wrt_upt del: map_snd_zip)
  then have "sorted_wrt ?R0 ?zs" by (simp only: sorted_wrt_map)
  then have "sorted_wrt (sorts_before ?t ?R0) (sort_key ?t ?zs)"
    by (rule sort_key_sorts_before)
  then have s: "sorted_wrt (sorts_before fst (sorts_before ?t ?R0)) ?S"
    by (rule sort_key_sorts_before)
  have p: "\<forall>p\<in>set ?S. fst p = xs ! snd p"
    by (auto simp: set_zip)
  have "sorted_wrt (\<lambda>p q. ranks_before tie xs (snd q) (snd p)) ?S"
    by (rule sorted_wrt_mono_rel [OF _ s])
      (use p in \<open>auto simp: sorts_before_def ranks_before_def\<close>)
  then show ?thesis by (simp add: argsort_def sorted_wrt_map)
qed

lemma sorted_wrt_slice_last: "sorted_wrt R xs \<Longrightarrow> sorted_wrt R (slice_last k xs)"
  by (simp add: slice_last_def Let_def)

lemma top_indices_ranked: "sorted_wrt (ranks_before tie sims) (top_indices tie sims k)"
  using sorted_wrt_slice_last [OF argsort_ranked, where k = k and xs1 = sims and tie1 = tie]
  by (simp add: top_indices_def sorted_wrt_rev)

lemma distinct_argsort: "distinct (argsort tie xs)"
proof -
  have "distinct (map snd (zip xs [0..<length xs]))"
    by (simp only: map_snd_zip length_upt diff_zero distinct_upt)
  then show ?thesis
    by (simp add: argsort_def distinct_map inj_on_def del: map_snd_zip)
qed

lemma length_argsort: "length (argsort tie xs) = length xs"
  by (simp add: argsort_def)

lemma argsort_ascending: "sorted (map (\<lambda>i. xs ! i) (argsort tie xs))"
proof -
  have "sorted_wrt (\<lambda>i j. xs ! i \<le> xs ! j) (argsort tie xs)"
    by (rule sorted_wrt_mono_rel [OF _ argsort_ranked]) (auto simp: ranks_before_def)
  then show ?thesis by (simp add: sorted_wrt_map)
qed

lemma slice_last_0: "slice_last 0 xs = xs"
  by (simp add: slice_last_def)

lemma slice_last_pos: "1 \<le> k \<Longrightarrow> slice_last k xs = drop (length xs - nat k) xs"
  by (auto simp: slice_last_def Let_def max_def intro!: arg_cong2 [where f = drop])

lemma length_slice_last: "1 \<le> k \<Longrightarrow> length (slice_last k xs) = min (nat k) (length xs)"
  by (simp add: slice_last_pos)

lemma filter_drop_upward:
  "sorted_wrt R xs \<Longrightarrow> (\<And>a b. R a b \<Longrightarrow> P a \<Longrightarrow> P b) \<Longrightarrow>
   length (filter P (drop j xs)) = min (length (filter P xs)) (length xs - j)"
proof (induction xs arbitrary: j)
  case Nil
  then show ?case by simp
next
  case (Cons a xs)
  show ?case
  proof (cases j)
    case 0
    have "length (filter P (a # xs)) \<le> length (a # xs)" by (rule length_filter_le)
    then show ?thesis using 0 by (simp del: filter.simps)
  next
    case (Suc j')
    have ih: "length (filter P (drop j' xs)) = min (length (filter P xs)) (length xs - j')"
      using Cons by simp
    show ?thesis
    proof (cases "P a")
      case True
      then have "\<forall>x\<in>set xs. P x" using Cons.prems by auto
      then have "filter P xs = xs" by simp
      then show ?thesis using ih Suc True by simp
    next
      case False
      then show ?thesis using ih Suc by simp
    qed
  qed
qed

lemma length_filter_argsort:
  "length (filter P (argsort tie xs)) = length (filter P [0..<length xs])"
proof -
  have "length (filter P (argsort tie xs)) = card ({i. P i} \<inter> set (argsort tie xs))"
    by (rule distinct_length_filter [OF distinct_argsort])
  also have "\<dots> = card ({i. P i} \<inter> set [0..<length xs])"
    by (simp add: set_argsort lessThan_atLeast0)
  also have "\<dots> = length (filter P [0..<length xs])"
    by (rule distinct_length_filter [symmetric]) simp
  finally show ?thesis .
qed

lemma ranks_before_pos: "ranks_before tie sims j i \<Longrightarrow> 0 < sims ! i \<Longrightarrow> 0 < sims ! j"
  by (auto simp: ranks_before_def)

lemma length_filter_top_indices:
  assumes "1 \<le> k"
  shows "length (filter (\<lambda>i. 0 < sims ! i) (top_indices tie sims k))
         = min (nat k) (length (filter (\<lambda>i. 0 < sims ! i) [0..<length sims]))"
proof -
  let ?P = "\<lambda>i. 0 < sims ! i"
  let ?A = "argsort tie sims"
  have n: "length ?A = length sims" by (simp add: argsort_def)
  have "length (filter ?P (top_indices tie sims k)) = length (filter ?P (drop (length ?A - nat k) ?A))"
    using assms by (simp add: top_indices_def slice_last_pos rev_filter [symmetric])
  also have "\<dots> = min (length (filter ?P ?A)) (length ?A - (length ?A - nat k))"
    by (rule filter_drop_upward [OF argsort_ranked]) (rule ranks_before_pos)
  also have "\<dots> = min (nat k) (length (filter ?P [0..<length sims]))"
  proof -
    have "length (filter ?P [0..<length sims]) \<le> length sims"
      using length_filter_le [of ?P "[0..<length sims]"] by simp
    then show ?thesis by (auto simp: length_filter_argsort n min_def)
  qed
  finally show ?thesis .
qed

lemma set_filter_top_indices_0:
  "set (filter (\<lambda>i. 0 < sims ! i) (top_indices tie sims 0))
   = set (filter (\<lambda>i. 0 < sims ! i) [0..<length sims])"
  by (auto simp: top_indices_def slice_last_0 set_argsort)

lemma length_filter_top_indices_0:
  "length (filter (\<lambda>i. 0 < sims ! i) (top_indices tie sims 0))
   = length (filter (\<lambda>i. 0 < sims ! i) [0..<length sims])"
  by (simp add: top_indices_def slice_last_0 length_filter_argsort rev_filter [symmetric])

section \<open>What recommend returns on a well-formed recommender\<close>

lemma similarities_unfitted: "unfitted self \<Longrightarrow> similarities L self query = []"
  by (auto simp: unfitted_def similarities_def split: option.splits)

lemma ranked_indices_unfitted: "unfitted self \<Longrightarrow> ranked_indices L self query k = []"
  using set_top_indices [of "tie_order L" "[]" k]
  by (simp add: ranked_indices_def similarities_unfitted)

lemma length_cosine: "length (cosine_similarity q m) = length m"
  by (simp add: cosine_similarity_def)

lemma recommend_closed:
  assumes "well_formed self"
  shows "recommend L self query k =
           Inr (map (result_at L self query) (ranked_indices L self query k))"
proof (cases "unfitted self")
  case True
  then show ?thesis by (simp add: recommend_unfitted ranked_indices_unfitted)
next
  case False
  then obtain df v m where f: "data_df self = Some df" "tfidf_vectorizer self = Some v"
      "tfidf_matrix self = Some m"
    by (auto simp: unfitted_def)
  let ?sims = "cosine_similarity (transform (unicode L) v (preprocess_query (unicode L) query)) m"
  have s: "similarities L self query = ?sims" using f by (simp add: similarities_def)
  have len: "length ?sims = length (df_rows df)"
    using assms f by (simp add: well_formed_def length_cosine)
  have "\<forall>i\<in>set (top_indices (tie_order L) ?sims k). i < length (df_rows df)"
    using set_top_indices [of "tie_order L" ?sims k] len by auto
  then have "collect df ?sims (top_indices (tie_order L) ?sims k) =
      Inr (map (\<lambda>i. make_recommendation df (df_rows df ! i) (?sims ! i))
             (filter (\<lambda>i. 0 < ?sims ! i) (top_indices (tie_order L) ?sims k)))"
    by (rule collect_Inr)
  moreover have "result_at L self query = (\<lambda>i. make_recommendation df (df_rows df ! i) (?sims ! i))"
    using f by (simp add: result_at_def s fun_eq_iff)
  ultimately show ?thesis
    using f by (simp add: recommend_def s ranked_indices_def Let_def)
qed

lemma score_result_at: "similarity_score (result_at L self query i) = similarities L self query ! i"
  if "data_df self \<noteq> None"
  using that by (auto simp: result_at_def make_recommendation_def)

lemma ranked_indices_sorted:
  "sorted_wrt (ranks_before (tie_order L) (similarities L self query)) (ranked_indices L self query k)"
  unfolding ranked_indices_def by (rule sorted_wrt_filter [OF top_indices_ranked])

lemma ranked_indices_in_range:
  "i \<in> set (ranked_indices L self query k) \<Longrightarrow>
     i < length (similarities L self query) \<and> 0 < similarities L self query ! i"
  using set_top_indices [of "tie_order L" "similarities L self query" k]
  by (auto simp: ranked_indices_def)

lemma distinct_ranked_indices: "distinct (ranked_indices L self query k)"
  by (simp add: ranked_indices_def top_indices_def slice_last_def Let_def distinct_argsort)

lemma length_ranked_indices:
  "1 \<le> k \<Longrightarrow>
   length (ranked_indices L self query k) = min (nat k) (length (positive_docs L self query))"
  by (simp add: ranked_indices_def positive_docs_def length_filter_top_indices)

lemma ranked_indices_0:
  "set (ranked_indices L self query 0) = set (positive_docs L self query)
   \<and> length (ranked_indices L self query 0) = length (positive_docs L self query)"
  using set_filter_top_indices_0 [of "similarities L self query" "tie_order L"]
    length_filter_top_indices_0 [of "similarities L self query" "tie_order L"]
  by (simp add: ranked_indices_def positive_docs_def)

subsection \<open>The small instances, evaluated\<close>

lemma ex_query: "preprocess_query U (py ''The Sales!'') = py ''the sales''"
  by (simp add: preprocess_query_def py_def str_lower_def lower_ascii_def is_upper_def
      sub_punct_def is_word_def is_alnum_def is_lower_def is_digit_def is_space_def str_strip_def)

lemma ex_analyze: "analyze U ex_vectorizer (py ''the sales'') = [py ''sales'']"
  by (simp add: analyze_def py_def str_lower_def lower_ascii_def is_upper_def tokenize_def
      is_word_def is_alnum_def is_lower_def is_digit_def word_ngrams_def ngrams_of_def
      ex_vectorizer_def)

lemma ex_transform: "transform U ex_vectorizer (py ''the sales'') = [0, 1, 0, 0]"
  by (simp add: transform_def ex_analyze)
    (simp add: ex_vectorizer_def py_def l2_normalize_def sum_squares_def fadd_def fmul_def
      fdiv_def fsqrt_def fl_0 fl_1)

lemma normalize_unit: "l2_normalize [0, 1, 0, 0] = [0, 1, 0, 0]" "l2_normalize [0, 0, 1, 0] = [0, 0, 1, 0]"
  by (simp_all add: l2_normalize_def sum_squares_def fadd_def fmul_def fdiv_def fsqrt_def fl_0 fl_1)

lemma normalize_halves: "l2_normalize [1 / 2, 1 / 2, 1 / 2, 1 / 2] = [1 / 2, 1 / 2, 1 / 2, 1 / 2]"
  by (simp add: l2_normalize_def sum_squares_def fadd_def fmul_def fdiv_def fsqrt_def
      fl_0 fl_1 fl_half fl_quarter fl_three_quarters)

lemma ex_sims: "similarities L ex_recommender (py ''The Sales!'') = [1 / 2, 0, 1, 1]"
  by (simp add: similarities_def ex_recommender_def ex_query ex_transform cosine_similarity_def
      normalize_unit normalize_halves)
    (simp add: dot_def fadd_def fmul_def fl_0 fl_1 fl_half)

lemma ex_tied_sims: "similarities L ex_tied (py ''The Sales!'') = [1, 1, 1, 1, 0]"
  by (simp add: similarities_def ex_tied_def ex_query ex_transform cosine_similarity_def
      normalize_unit)
    (simp add: dot_def fadd_def fmul_def fl_0 fl_1)

lemma ex_argsort: "argsort (\<lambda>xs i. 0) [1 / 2, 0, 1, 1] = [1, 0, 2, 3]"
  by (simp add: argsort_def upt_rec)

lemma ex_argsort_stable: "argsort (\<lambda>xs i. 0) [1, 1, 1, 1, 0] = [4, 0, 1, 2, 3]"
  by (simp add: argsort_def upt_rec)

lemma ex_argsort_tie: "argsort ex_tie [1, 1, 1, 1, 0] = [4, 0, 2, 1, 3]"
  by (simp add: argsort_def upt_rec ex_tie_def)


lemma ex_pair_query: "preprocess_query U (py ''alpha beta'') = py ''alpha beta''"
  by (simp add: preprocess_query_def py_def str_lower_def lower_ascii_def is_upper_def
      sub_punct_def is_word_def is_alnum_def is_lower_def is_digit_def is_space_def str_strip_def)

lemma ex_pair_analyze:
  "analyze U \<lparr>vocabulary = [py ''alpha'', py ''alpha beta'', py ''beta''], idf = [1, 1, 1],
              stop_words = []\<rparr> (py ''alpha beta'')
   = [py ''alpha'', py ''beta'', py ''alpha beta'']"
  by (simp add: analyze_def py_def str_lower_def lower_ascii_def is_upper_def tokenize_def
      is_word_def is_alnum_def is_lower_def is_digit_def word_ngrams_def ngrams_of_def upt_rec)

lemma sum_squares_ones: "sum_squares [1, 1, 1] = 3"
  by (simp add: sum_squares_def fadd_def fmul_def fl_1 fl_2 fl_3)

lemma normalize_ones:
  "l2_normalize [1, 1, 1]
   = [5200308914369309 / 2 ^ 53, 5200308914369309 / 2 ^ 53, 5200308914369309 / 2 ^ 53]"
  unfolding l2_normalize_def sum_squares_ones Let_def fsqrt_3
  by (simp only: list.map ex_x) simp

lemma ex_pair_transform:
  "transform U \<lparr>vocabulary = [py ''alpha'', py ''alpha beta'', py ''beta''], idf = [1, 1, 1],
                stop_words = []\<rparr> (py ''alpha beta'')
   = [5200308914369309 / 2 ^ 53, 5200308914369309 / 2 ^ 53, 5200308914369309 / 2 ^ 53]"
proof -
  have "map2 (\<lambda>t w. fmul (real (count_list [py ''alpha'', py ''beta'', py ''alpha beta''] t)) w)
          [py ''alpha'', py ''alpha beta'', py ''beta''] [1, 1, 1] = [1, 1, 1]"
    by (simp add: py_def fmul_def fl_1)
  then show ?thesis
    by (simp only: transform_def ex_pair_analyze vectorizer.simps normalize_ones)
qed

lemma sum_squares_x:
  "sum_squares [5200308914369309 / 2 ^ 53, 5200308914369309 / 2 ^ 53, 5200308914369309 / 2 ^ 53]
   = 4503599627370497 / 2 ^ 52"
  by (simp only: sum_squares_def foldl.simps ex_s ex_s1 ex_s2 ex_s3)

lemma normalize_x:
  "l2_normalize [5200308914369309 / 2 ^ 53, 5200308914369309 / 2 ^ 53, 5200308914369309 / 2 ^ 53]
   = [5200308914369309 / 2 ^ 53, 5200308914369309 / 2 ^ 53, 5200308914369309 / 2 ^ 53]"
  unfolding l2_normalize_def sum_squares_x Let_def ex_sqrt_u
  by (simp only: list.map ex_x1) simp

lemma dot_x:
  "dot [5200308914369309 / 2 ^ 53, 5200308914369309 / 2 ^ 53, 5200308914369309 / 2 ^ 53]
       [5200308914369309 / 2 ^ 53, 5200308914369309 / 2 ^ 53, 5200308914369309 / 2 ^ 53]
   = 4503599627370497 / 2 ^ 52"
  by (simp only: dot_def zip.simps list.case foldl.simps prod.case ex_s ex_s1 ex_s2 ex_s3)

lemma ex_pair_sims: "similarities L ex_pair (py ''alpha beta'') = [4503599627370497 / 2 ^ 52]"
  by (simp only: similarities_def ex_pair_def SHLRecommender.simps option.case prod.case
      ex_pair_query ex_pair_transform cosine_similarity_def list.map normalize_x dot_x)

lemma ex_well_formed: "well_formed ex_recommender" "well_formed ex_tied" "well_formed ex_pair"
  by (simp_all add: well_formed_def ex_recommender_def ex_tied_def ex_pair_def ex_frame_def)

lemma ex_ties: "tie_order ex_lib = (\<lambda>xs i. 0)" "tie_order ex_lib_tie = ex_tie"
  by (simp_all add: ex_lib_def ex_lib_tie_def)

lemma ex_ranked_2: "ranked_indices ex_lib ex_recommender (py ''The Sales!'') 2 = [3, 2]"
  by (simp add: ranked_indices_def ex_sims top_indices_def ex_ties ex_argsort slice_last_def)

lemma ex_ranked_10: "ranked_indices ex_lib ex_recommender (py ''The Sales!'') 10 = [3, 2, 0]"
  by (simp add: ranked_indices_def ex_sims top_indices_def ex_ties ex_argsort slice_last_def)

lemma ex_ranked_0: "ranked_indices ex_lib ex_recommender (py ''The Sales!'') 0 = [3, 2, 0]"
  by (simp add: ranked_indices_def ex_sims top_indices_def ex_ties ex_argsort slice_last_def)

lemma ex_positive: "positive_docs L ex_recommender (py ''The Sales!'') = [0, 2, 3]"
  by (simp add: positive_docs_def ex_sims upt_rec)

lemma ex_tied_ranked:
  "ranked_indices ex_lib ex_tied (py ''The Sales!'') 3 = [3, 2, 1]"
  "ranked_indices ex_lib_tie ex_tied (py ''The Sales!'') 3 = [3, 1, 2]"
  by (simp_all add: ranked_indices_def ex_tied_sims top_indices_def ex_ties ex_argsort_stable
      ex_argsort_tie slice_last_def)

lemma ex_pair_ranked: "ranked_indices L ex_pair (py ''alpha beta'') 1 = [0]"
  by (simp add: ranked_indices_def ex_pair_sims top_indices_def slice_last_def argsort_def)

lemma ex_make: "make_recommendation (ex_frame rs) (ex_row i n) score = ex_result i n score"
  by (simp add: make_recommendation_def ex_frame_def ex_row_def ex_result_def series_get_def
      has_column_def)

lemma result_at_Some:
  "data_df self = Some df \<Longrightarrow>
   result_at L self query i = make_recommendation df (df_rows df ! i) (similarities L self query ! i)"
  by (simp add: result_at_def)

lemma df_rows_ex_frame: "df_rows (ex_frame rs) = rs"
  by (simp add: ex_frame_def)

lemma ex_frames:
  "data_df ex_recommender = Some (ex_frame [ex_row ''1'' ''A'', ex_row ''2'' ''B'',
     ex_row ''3'' ''C'', ex_row ''4'' ''D''])"
  "data_df ex_tied = Some (ex_frame [ex_row ''1'' ''A'', ex_row ''2'' ''B'', ex_row ''3'' ''C'',
     ex_row ''4'' ''D'', ex_row ''5'' ''E''])"
  "data_df ex_pair = Some (ex_frame [ex_row ''1'' ''A''])"
  by (simp_all add: ex_recommender_def ex_tied_def ex_pair_def)

lemma ex_results:
  "result_at L ex_recommender (py ''The Sales!'') 0 = ex_result ''1'' ''A'' (1 / 2)"
  "result_at L ex_recommender (py ''The Sales!'') 2 = ex_result ''3'' ''C'' 1"
  "result_at L ex_recommender (py ''The Sales!'') 3 = ex_result ''4'' ''D'' 1"
  by (simp_all add: result_at_Some [OF ex_frames(1)] ex_sims df_rows_ex_frame ex_make)

lemma ex_tied_results:
  "result_at L ex_tied (py ''The Sales!'') (Suc 0) = ex_result ''2'' ''B'' 1"
  "result_at L ex_tied (py ''The Sales!'') 2 = ex_result ''3'' ''C'' 1"
  "result_at L ex_tied (py ''The Sales!'') 3 = ex_result ''4'' ''D'' 1"
  by (simp_all add: result_at_Some [OF ex_frames(2)] ex_tied_sims df_rows_ex_frame ex_make)

lemma ex_pair_result:
  "result_at L ex_pair (py ''alpha beta'') 0 = ex_result ''1'' ''A'' (4503599627370497 / 2 ^ 52)"
  by (simp add: result_at_Some [OF ex_frames(3)] ex_pair_sims df_rows_ex_frame ex_make)

section \<open>The claims about the ranking\<close>

text \<open>
  C3, as stated, fails: in the catalog of five rows the first four have the same similarity
  1 to the query. With three recommendations asked for, a sort that keeps equal values in
  index order gives the rows D, C, B, and a sort that lists the indices as 4, 0, 2, 1, 3 gives
  D, B, C; in both the row D comes before rows that are earlier in the catalog.
\<close>

theorem tie_order_counterexample:
  "recommend ex_lib ex_tied (py ''The Sales!'') 3 =
     Inr [ex_result ''4'' ''D'' 1, ex_result ''3'' ''C'' 1, ex_result ''2'' ''B'' 1]
   \<and> recommend ex_lib_tie ex_tied (py ''The Sales!'') 3 =
     Inr [ex_result ''4'' ''D'' 1, ex_result ''2'' ''B'' 1, ex_result ''3'' ''C'' 1]"
  by (simp add: recommend_closed [OF ex_well_formed(2)] ex_tied_ranked ex_tied_results)

text \<open>
  C3, amended: the results are the documents with a similarity above zero among the last
  \<open>k\<close> indices of the ascending sort, in reverse: a higher similarity comes first, and
  documents with exactly equal similarity come in the reverse of the order in which the sort
  lists them. That order is whatever numpy's sort leaves (the parameter \<open>tie_order\<close>); the
  code has no tie-break of its own, and the catalog order is not kept in general.
\<close>

theorem ties_in_reverse_sort_order:
  assumes "well_formed self"
  shows "recommend L self query k =
           Inr (map (result_at L self query) (ranked_indices L self query k))
     \<and> ranked_indices L self query k =
         filter (\<lambda>i. 0 < similarities L self query ! i)
           (rev (slice_last k (argsort (tie_order L) (similarities L self query))))
     \<and> sorted_wrt (ranks_before (tie_order L) (similarities L self query))
         (ranked_indices L self query k)
     \<and> (\<forall>a b. a < b \<and> b < length (ranked_indices L self query k)
            \<and> similarities L self query ! (ranked_indices L self query k ! a)
              = similarities L self query ! (ranked_indices L self query k ! b)
          \<longrightarrow> tie_order L (similarities L self query) (ranked_indices L self query k ! b)
              \<le> tie_order L (similarities L self query) (ranked_indices L self query k ! a))"
proof -
  let ?sims = "similarities L self query" and ?idx = "ranked_indices L self query k"
  have s: "sorted_wrt (ranks_before (tie_order L) ?sims) ?idx"
    by (rule ranked_indices_sorted)
  have "\<forall>a b. a < b \<and> b < length ?idx \<and> ?sims ! (?idx ! a) = ?sims ! (?idx ! b)
          \<longrightarrow> tie_order L ?sims (?idx ! b) \<le> tie_order L ?sims (?idx ! a)"
  proof (intro allI impI)
    fix a b
    assume h: "a < b \<and> b < length ?idx \<and> ?sims ! (?idx ! a) = ?sims ! (?idx ! b)"
    with s have "ranks_before (tie_order L) ?sims (?idx ! a) (?idx ! b)"
      by (simp add: sorted_wrt_iff_nth_less)
    with h show "tie_order L ?sims (?idx ! b) \<le> tie_order L ?sims (?idx ! a)"
      by (auto simp: ranks_before_def)
  qed
  then show ?thesis
    using recommend_closed [OF assms] s by (simp add: ranked_indices_def top_indices_def)
qed

theorem ties_in_reverse_sort_order_witness:
  "well_formed ex_tied
   \<and> recommend ex_lib_tie ex_tied (py ''The Sales!'') 3 =
       Inr [ex_result ''4'' ''D'' 1, ex_result ''2'' ''B'' 1, ex_result ''3'' ''C'' 1]
   \<and> ranked_indices ex_lib_tie ex_tied (py ''The Sales!'') 3 = [3, 1, 2]
   \<and> sorted_wrt (ranks_before ex_tie [1, 1, 1, 1, 0]) [3, 1, 2]"
proof -
  note th = ties_in_reverse_sort_order [OF ex_well_formed(2), of ex_lib_tie "py ''The Sales!''" 3]
  have a: "recommend ex_lib_tie ex_tied (py ''The Sales!'') 3 =
       Inr [ex_result ''4'' ''D'' 1, ex_result ''2'' ''B'' 1, ex_result ''3'' ''C'' 1]"
    using th [THEN conjunct1] by (simp add: ex_tied_ranked ex_tied_results)
  have c: "sorted_wrt (ranks_before ex_tie [1, 1, 1, 1, 0]) [3, 1, 2]"
    using th [THEN conjunct2, THEN conjunct2, THEN conjunct1]
    by (simp only: ex_tied_ranked ex_tied_sims ex_ties)
  show ?thesis using a c ex_well_formed(2) ex_tied_ranked(2) by simp
qed

text \<open>
  C4, as stated, fails: the similarity is a binary64 cosine and can exceed 1. For the
  catalog of the one document \<^verbatim>\<open>alpha beta\<close> and the query \<^verbatim>\<open>alpha beta\<close>, the three entries of
  either vector are 1 divided by the rounded square root of 3, the rounded squares add up to
  the number next above 1, and that is the score returned.
\<close>

theorem score_above_one_counterexample:
  "recommend ex_lib ex_pair (py ''alpha beta'') 1 =
     Inr [ex_result ''1'' ''A'' (4503599627370497 / 2 ^ 52)]
   \<and> (1::real) < 4503599627370497 / 2 ^ 52"
  by (simp add: recommend_closed [OF ex_well_formed(3)] ex_pair_ranked ex_pair_result)

text \<open>
  C4, amended: on every well-formed recommender, for every query and every \<open>k \<ge> 1\<close>,
  \<open>recommend\<close> returns a list (and no error) of at most \<open>k\<close> results, each with a similarity
  above 0, in non-increasing order of similarity; their number is the smaller of \<open>k\<close> and the
  number of documents with a similarity above zero, so with fewer than \<open>k\<close> such documents
  the result is shorter than \<open>k\<close> and nothing is added to it. (No upper bound of 1: the
  rounded cosine can be above it.)
\<close>

theorem recommend_bounds:
  assumes "well_formed self" and "1 \<le> k"
  shows "\<exists>recs. recommend L self query k = Inr recs
     \<and> length recs \<le> nat k
     \<and> (\<forall>r\<in>set recs. 0 < similarity_score r)
     \<and> sorted_wrt (\<ge>) (map similarity_score recs)
     \<and> length recs = min (nat k) (length (positive_docs L self query))"
proof (cases "unfitted self")
  case True
  then show ?thesis
    using assms(2) by (simp add: recommend_unfitted positive_docs_def similarities_unfitted)
next
  case False
  then have d: "data_df self \<noteq> None" by (simp add: unfitted_def)
  let ?sims = "similarities L self query"
  let ?idx = "ranked_indices L self query k"
  let ?recs = "map (result_at L self query) ?idx"
  have r: "recommend L self query k = Inr ?recs" by (rule recommend_closed [OF assms(1)])
  have len: "length ?recs = min (nat k) (length (positive_docs L self query))"
    using assms(2) by (simp add: length_ranked_indices)
  have sc: "map similarity_score ?recs = map (\<lambda>i. ?sims ! i) ?idx"
    by (simp add: score_result_at [OF d] comp_def)
  have b: "\<forall>r\<in>set ?recs. 0 < similarity_score r"
    using ranked_indices_in_range [of _ L self query k] by (auto simp: score_result_at [OF d])
  have "sorted_wrt (\<lambda>i j. ?sims ! i \<ge> ?sims ! j) ?idx"
    by (rule sorted_wrt_mono_rel [OF _ ranked_indices_sorted]) (auto simp: ranks_before_def)
  then have s: "sorted_wrt (\<ge>) (map similarity_score ?recs)"
    unfolding sc by (simp add: sorted_wrt_map)
  show ?thesis using r len b s by (intro exI [of _ ?recs]) simp
qed

theorem recommend_bounds_witness:
  "well_formed ex_recommender \<and> (1::int) \<le> 10
   \<and> (\<exists>recs. recommend ex_lib ex_recommender (py ''The Sales!'') 10 = Inr recs
        \<and> length recs = 3 \<and> length recs \<le> nat 10
        \<and> (\<forall>r\<in>set recs. 0 < similarity_score r)
        \<and> sorted_wrt (\<ge>) (map similarity_score recs))"
  using recommend_bounds [OF ex_well_formed(1), of 10 ex_lib "py ''The Sales!''"]
  by (auto simp: ex_well_formed ex_positive)

text \<open>
  C10: with \<open>num_recommendations = 0\<close> the slice \<^verbatim>\<open>[-0:]\<close> keeps the whole ascending sort, so
  the top indices are all indices, and \<open>recommend\<close> returns one result for every document
  with a similarity above zero (as many results as there are such documents), not zero
  results.
\<close>

theorem recommend_zero_returns_all:
  assumes "well_formed self"
  shows "top_indices (tie_order L) (similarities L self query) 0
           = rev (argsort (tie_order L) (similarities L self query))
     \<and> recommend L self query 0 =
           Inr (map (result_at L self query) (ranked_indices L self query 0))
     \<and> set (ranked_indices L self query 0) = set (positive_docs L self query)
     \<and> length (ranked_indices L self query 0) = length (positive_docs L self query)"
  using recommend_closed [OF assms, of L query 0] ranked_indices_0 [of L self query]
  by (simp add: top_indices_def slice_last_0)

theorem recommend_zero_returns_all_witness:
  "well_formed ex_recommender
   \<and> recommend ex_lib ex_recommender (py ''The Sales!'') 0 =
       Inr [ex_result ''4'' ''D'' 1, ex_result ''3'' ''C'' 1, ex_result ''1'' ''A'' (1 / 2)]
   \<and> length (positive_docs ex_lib ex_recommender (py ''The Sales!'')) = 3"
  using recommend_zero_returns_all [OF ex_well_formed(1), of ex_lib "py ''The Sales!''"]
  by (simp add: ex_well_formed ex_ranked_0 ex_results ex_positive)


subsection \<open>The tie orders give exactly the ascending permutations\<close>

lemma sorted_wrt_unique:
  assumes "\<And>a b. R a b \<Longrightarrow> \<not> R b a"
  shows "sorted_wrt R xs \<Longrightarrow> sorted_wrt R ys \<Longrightarrow> distinct xs \<Longrightarrow> distinct ys \<Longrightarrow>
         set xs = set ys \<Longrightarrow> xs = ys"
proof (induction xs arbitrary: ys)
  case Nil
  then show ?case by simp
next
  case (Cons x xs)
  then obtain y ys' where ys: "ys = y # ys'" by (cases ys) auto
  have xy: "x = y"
  proof (rule ccontr)
    assume ne: "x \<noteq> y"
    then have "x \<in> set ys'" using Cons.prems(5) ys by auto
    then have "R y x" using Cons.prems(2) ys by simp
    moreover have "y \<in> set xs" using Cons.prems(5) ys ne by auto
    then have "R x y" using Cons.prems(1) by simp
    ultimately show False using assms by blast
  qed
  have "set xs = set ys'" using Cons.prems(3,4,5) ys xy by auto
  then have "xs = ys'" using Cons.IH [of ys'] Cons.prems ys by simp
  then show ?case using ys xy by simp
qed

lemma position_nth:
  assumes "distinct A" "p < length A"
  shows "length (takeWhile (\<lambda>a. a \<noteq> A ! p) A) = p"
proof -
  have "takeWhile (\<lambda>a. a \<noteq> A ! p) A = take p A"
    using assms by (intro takeWhile_eq_take_P_nth) (auto simp: nth_eq_iff_index_eq)
  then show ?thesis using assms by simp
qed

lemma argsort_complete:
  assumes "distinct A" "set A = {..<length xs}" "sorted (map (\<lambda>i. xs ! i) A)"
  shows "\<exists>tie. argsort tie xs = A"
proof -
  define tie :: tie_order where "tie = (\<lambda>ys i. length (takeWhile (\<lambda>a. a \<noteq> i) A))"
  let ?R = "\<lambda>i j. ranks_before tie xs j i"
  have asym: "\<And>a b. ?R a b \<Longrightarrow> \<not> ?R b a" by (auto simp: ranks_before_def)
  have "sorted_wrt ?R A"
    unfolding sorted_wrt_iff_nth_less
  proof (intro allI impI)
    fix p q assume pq: "p < q" "q < length A"
    have "xs ! (A ! p) \<le> xs ! (A ! q)"
      using assms(3) pq by (simp add: sorted_iff_nth_mono)
    moreover have "tie xs (A ! p) = p" "tie xs (A ! q) = q"
      using pq assms(1) by (simp_all add: tie_def position_nth)
    ultimately show "?R (A ! p) (A ! q)" using pq by (auto simp: ranks_before_def)
  qed
  moreover have "sorted_wrt ?R (argsort tie xs)" by (rule argsort_ranked)
  ultimately have "argsort tie xs = A"
    using assms(1,2) by (intro sorted_wrt_unique [of ?R] asym) (simp_all add: distinct_argsort set_argsort)
  then show ?thesis by blast
qed

lemma argsort_exactly:
  "(\<exists>tie. argsort tie xs = A)
   \<longleftrightarrow> distinct A \<and> set A = {..<length xs} \<and> sorted (map (\<lambda>i. xs ! i) A)"
  using argsort_complete [of A xs] distinct_argsort set_argsort argsort_ascending by metis

section \<open>The two measures of one query\<close>

lemma sum_list_upt_shift:
  "(\<Sum>j\<leftarrow>[0..<Suc n]. f j) = f 0 + (\<Sum>j\<leftarrow>[0..<n]. f (Suc j))" for f :: "nat \<Rightarrow> real"
proof -
  have "[0..<Suc n] = 0 # map Suc [0..<n]"
    by (simp add: upt_conv_Cons map_Suc_upt del: upt_Suc)
  then show ?thesis by (simp only: list.map sum_list.Cons map_map comp_def)
qed

lemma sum_list_upt_from_1:
  "(\<Sum>j\<leftarrow>[Suc 0..<Suc n]. f j) = (\<Sum>j\<leftarrow>[0..<n]. f (Suc j))" for f :: "nat \<Rightarrow> real"
proof -
  have "[Suc 0..<Suc n] = map Suc [0..<n]" by (simp add: map_Suc_upt del: upt_Suc)
  then show ?thesis by (simp only: map_map comp_def)
qed

lemma hits_so_far_Cons:
  "hits_so_far (r # rest) rel (Suc j) =
     (if r \<in> Val ` set rel then 1 else 0) + hits_so_far rest rel j"
  by (simp add: hits_so_far_def)

lemma hits_so_far_0: "hits_so_far rs rel 0 = 0"
  by (simp add: hits_so_far_def)

lemma ap_loop_sum:
  "ap_loop rs rel i cnt acc =
     acc + (\<Sum>j\<leftarrow>[0..<length rs].
              if rs ! j \<in> Val ` set rel
              then real (cnt + hits_so_far rs rel (Suc j)) / real (i + Suc j)
              else 0)"
proof (induction rs arbitrary: i cnt acc)
  case Nil
  then show ?case by simp
next
  case (Cons r rest)
  show ?case
  proof (cases "r \<in> Val ` set rel")
    case True
    then show ?thesis
      by (simp add: Cons.IH sum_list_upt_shift hits_so_far_Cons hits_so_far_0 add_ac
          del: upt_Suc cong: if_cong)
  next
    case False
    then show ?thesis
      by (simp add: Cons.IH sum_list_upt_shift hits_so_far_Cons hits_so_far_0 add_ac
          del: upt_Suc cong: if_cong)
  qed
qed

lemma average_precision_list:
  "relevant \<noteq> [] \<Longrightarrow>
   average_precision recommended relevant = list_average_precision recommended relevant"
  by (simp add: average_precision_def list_average_precision_def rank_sum_def ap_loop_sum
      sum_list_upt_from_1 del: upt_Suc cong: if_cong)

lemma recall_at_list:
  "relevant \<noteq> [] \<Longrightarrow> recall_at recommended relevant = list_recall recommended relevant"
  by (simp add: recall_at_def list_recall_def)

lemma list_measures_distinct:
  "distinct expected \<Longrightarrow> list_recall ranked expected = spec_recall ranked expected"
  "distinct expected \<Longrightarrow>
   list_average_precision ranked expected = spec_average_precision ranked expected"
  by (simp_all add: list_recall_def spec_recall_def list_average_precision_def
      spec_average_precision_def distinct_card)

section \<open>The evaluation harness\<close>

lemma evaluate_loop_closed:
  assumes "well_formed self"
  shows "evaluate_loop L self k ts rs aps =
     Inr (rs @ map (\<lambda>t. recall_at (top_k L self k t) (relevant_items t)) (filter counted ts),
          aps @ map (\<lambda>t. average_precision (top_k L self k t) (relevant_items t)) (filter counted ts))"
proof (induction ts arbitrary: rs aps)
  case Nil
  show ?case by simp
next
  case (Cons t ts)
  show ?case
  proof (cases "counted t")
    case False
    then show ?thesis using Cons by (simp add: counted_def)
  next
    case True
    obtain recs where r: "recommend L self (get_or (t_query t) []) k = Inr recs"
      using recommend_closed [OF assms] by blast
    then have "top_k L self k t = map (field_to_match t) recs" by (simp add: top_k_def)
    then show ?thesis using True r Cons by (simp add: counted_def)
  qed
qed

lemma metrics_loop_closed:
  assumes "well_formed self"
  shows "metrics_loop L self k ts rs aps =
     Inr (rs @ map (\<lambda>t. recall_at (top_k_names L self k t) (get_or (expected_assessments t) []))
                 (filter counted_by_name ts),
          aps @ map (\<lambda>t. average_precision (top_k_names L self k t) (get_or (expected_assessments t) []))
                  (filter counted_by_name ts))"
proof (induction ts arbitrary: rs aps)
  case Nil
  show ?case by simp
next
  case (Cons t ts)
  show ?case
  proof (cases "counted_by_name t")
    case False
    then show ?thesis using Cons by (simp add: counted_by_name_def)
  next
    case True
    obtain recs where r: "recommend L self (get_or (t_query t) []) k = Inr recs"
      using recommend_closed [OF assms] by blast
    then have "top_k_names L self k t = map rec_name recs" by (simp add: top_k_names_def)
    then show ?thesis using True r Cons by (simp add: counted_by_name_def)
  qed
qed

lemma mean_Nil: "mean [] = 0"
  by (simp add: mean_def)

lemma mean_single: "mean [x] = x"
  by (simp add: mean_def)

lemma evaluate_closed:
  "well_formed self \<Longrightarrow> evaluate L self ts k = Inr (spec_evaluate L self ts k)"
  by (simp add: evaluate_def evaluate_loop_closed spec_evaluate_def mean_Nil)

lemma calculate_metrics_closed:
  "well_formed self \<Longrightarrow> calculate_metrics L self ts k = Inr (spec_metrics L self ts k)"
  by (simp add: calculate_metrics_def metrics_loop_closed spec_metrics_def)

text \<open>
  C5: on a well-formed recommender both evaluation functions return the pair of arithmetic
  means of the recall and of the average precision over the test queries that count, that
  is, those whose query text and expected list are both non-empty; a query that does not
  count changes neither mean wherever it stands in the test set, and both means are 0 when
  no query counts.
\<close>

theorem evaluate_means_over_counted:
  assumes "well_formed self"
  shows "evaluate L self test_queries k = Inr (spec_evaluate L self test_queries k)
     \<and> calculate_metrics L self test_queries k = Inr (spec_metrics L self test_queries k)
     \<and> (filter counted test_queries = [] \<longrightarrow> evaluate L self test_queries k = Inr (0, 0))
     \<and> (filter counted_by_name test_queries = [] \<longrightarrow>
           calculate_metrics L self test_queries k = Inr (0, 0))
     \<and> (\<not> counted t \<longrightarrow> evaluate L self (qs @ t # qs') k = evaluate L self (qs @ qs') k)
     \<and> (\<not> counted_by_name t \<longrightarrow>
           calculate_metrics L self (qs @ t # qs') k = calculate_metrics L self (qs @ qs') k)"
  by (simp add: evaluate_closed [OF assms] calculate_metrics_closed [OF assms]
      spec_evaluate_def spec_metrics_def mean_Nil)

lemma ex_recommend_2:
  "recommend ex_lib ex_recommender (py ''The Sales!'') 2 =
     Inr [ex_result ''4'' ''D'' 1, ex_result ''3'' ''C'' 1]"
  by (simp add: recommend_closed [OF ex_well_formed(1)] ex_ranked_2 ex_results)

lemma ex_top_k:
  "top_k ex_lib ex_recommender 2 (ex_tests ! 0) = [Val (py ''D''), Val (py ''C'')]"
  "top_k ex_lib ex_recommender 2 (ex_tests ! 3) = [Val (py ''4''), Val (py ''3'')]"
  by (simp_all add: ex_tests_def top_k_def get_or_def ex_recommend_2 field_to_match_def
      ex_result_def)

lemma ex_counted: "filter counted ex_tests = [ex_tests ! 0, ex_tests ! 3]"
  by (simp add: ex_tests_def counted_def relevant_items_def get_or_def py_def)

lemma ex_relevant:
  "relevant_items (ex_tests ! 0) = [py ''D'', py ''A'']"
  "relevant_items (ex_tests ! 3) = [py ''3'']"
  by (simp_all add: ex_tests_def relevant_items_def get_or_def)

lemma ex_measures:
  "recall_at [Val (py ''D''), Val (py ''C'')] [py ''D'', py ''A''] = 1 / 2"
  "average_precision [Val (py ''D''), Val (py ''C'')] [py ''D'', py ''A''] = 1 / 2"
  "recall_at [Val (py ''4''), Val (py ''3'')] [py ''3''] = 1"
  "average_precision [Val (py ''4''), Val (py ''3'')] [py ''3''] = 1 / 2"
  by (simp_all add: recall_at_def average_precision_def py_def)

lemma ex_spec_evaluate: "spec_evaluate ex_lib ex_recommender ex_tests 2 = (3 / 4, 1 / 2)"
  by (simp add: spec_evaluate_def ex_counted ex_top_k ex_relevant ex_measures mean_def)

theorem evaluate_means_over_counted_witness:
  "well_formed ex_recommender \<and> evaluate ex_lib ex_recommender ex_tests 2 = Inr (3 / 4, 1 / 2)
   \<and> evaluate ex_lib ex_recommender (take 1 ex_tests @ drop 2 ex_tests) 2
       = evaluate ex_lib ex_recommender ex_tests 2"
proof -
  note th = evaluate_means_over_counted [OF ex_well_formed(1), where test_queries = ex_tests
      and L = ex_lib
      and k = 2 and qs = "take 1 ex_tests" and t = "ex_tests ! 1" and qs' = "drop 2 ex_tests"]
  have a: "evaluate ex_lib ex_recommender ex_tests 2 = Inr (3 / 4, 1 / 2)"
    using th [THEN conjunct1] by (simp only: ex_spec_evaluate)
  have nc: "\<not> counted (ex_tests ! 1)"
    by (simp add: ex_tests_def counted_def get_or_def)
  have split: "take 1 ex_tests @ ex_tests ! 1 # drop 2 ex_tests = ex_tests"
    by (simp add: ex_tests_def)
  have "evaluate ex_lib ex_recommender (take 1 ex_tests @ ex_tests ! 1 # drop 2 ex_tests) 2
        = evaluate ex_lib ex_recommender (take 1 ex_tests @ drop 2 ex_tests) 2"
    using th [THEN conjunct2, THEN conjunct2, THEN conjunct2, THEN conjunct2, THEN conjunct1] nc
    by (rule mp)
  then have b: "evaluate ex_lib ex_recommender (take 1 ex_tests @ drop 2 ex_tests) 2
        = evaluate ex_lib ex_recommender ex_tests 2"
    by (simp only: split)
  show ?thesis using a b ex_well_formed(1) by simp
qed

section \<open>The measures of one counted query\<close>

lemma counted_by_name_counted:
  "counted_by_name t \<Longrightarrow> counted t \<and> relevant_items t = get_or (expected_assessments t) []
     \<and> top_k L self k t = top_k_names L self k t"
  by (cases "expected_assessments t")
    (simp_all add: counted_by_name_def counted_def relevant_items_def get_or_def top_k_def
      top_k_names_def field_to_match_def split: sum.splits)

lemma evaluate_single:
  assumes "well_formed self" "counted t"
  shows "evaluate L self [t] k =
     Inr (list_recall (top_k L self k t) (relevant_items t),
          list_average_precision (top_k L self k t) (relevant_items t))"
proof -
  have "relevant_items t \<noteq> []" using assms(2) by (simp add: counted_def)
  then show ?thesis
    using assms
    by (simp add: evaluate_closed spec_evaluate_def mean_single recall_at_list
        average_precision_list)
qed

lemma calculate_metrics_single:
  assumes "well_formed self" "counted_by_name t"
  shows "calculate_metrics L self [t] k =
     Inr (list_recall (top_k_names L self k t) (get_or (expected_assessments t) []),
          list_average_precision (top_k_names L self k t) (get_or (expected_assessments t) []))"
proof -
  have "get_or (expected_assessments t) [] \<noteq> []" using assms(2) by (simp add: counted_by_name_def)
  then show ?thesis
    using assms
    by (simp add: calculate_metrics_closed spec_metrics_def mean_single recall_at_list
        average_precision_list)
qed

lemma ex_repeated_counted: "counted ex_repeated" "counted_by_name ex_repeated"
  by (simp_all add: ex_repeated_def counted_def counted_by_name_def relevant_items_def get_or_def
      py_def)

lemma ex_repeated_top_k:
  "top_k ex_lib ex_recommender 2 ex_repeated = [Val (py ''D''), Val (py ''C'')]"
  "top_k_names ex_lib ex_recommender 2 ex_repeated = [Val (py ''D''), Val (py ''C'')]"
  by (simp_all add: ex_repeated_def top_k_def top_k_names_def get_or_def ex_recommend_2
      field_to_match_def ex_result_def)

lemma ex_repeated_relevant:
  "relevant_items ex_repeated = [py ''D'', py ''D'']"
  "get_or (expected_assessments ex_repeated) [] = [py ''D'', py ''D'']"
  by (simp_all add: ex_repeated_def relevant_items_def get_or_def)

lemma rank_sum_2:
  "rank_sum [a, b] expected =
     (if a \<in> Val ` set expected then 1 else 0)
     + (if b \<in> Val ` set expected
        then (if a \<in> Val ` set expected then 1 else 1 / 2) else 0)"
  by (simp add: rank_sum_def hits_so_far_def upt_rec numeral_2_eq_2)

lemma ex_repeated_measures:
  "list_recall [Val (py ''D''), Val (py ''C'')] [py ''D'', py ''D''] = 1 / 2"
  "list_average_precision [Val (py ''D''), Val (py ''C'')] [py ''D'', py ''D''] = 1 / 2"
  "spec_recall [Val (py ''D''), Val (py ''C'')] [py ''D'', py ''D''] = 1"
  "spec_average_precision [Val (py ''D''), Val (py ''C'')] [py ''D'', py ''D''] = 1"
  by (simp_all add: list_recall_def list_average_precision_def spec_recall_def
      spec_average_precision_def rank_sum_2 py_def)

text \<open>
  C6, as stated, fails when the test file lists an expected item twice: for the query
  \<^verbatim>\<open>The Sales!\<close> at \<open>k = 2\<close> the ranker returns D, C; with the expected list D, D the test query
  counts, and both evaluation functions return the recall one half and the average precision
  one half, where the number of expected items among the results over the size of the
  expected set is 1 and the rank sum over the size of the expected set is 1.
\<close>

theorem expected_repeats_counterexample:
  "counted ex_repeated \<and> counted_by_name ex_repeated
   \<and> top_k ex_lib ex_recommender 2 ex_repeated = [Val (py ''D''), Val (py ''C'')]
   \<and> top_k_names ex_lib ex_recommender 2 ex_repeated = [Val (py ''D''), Val (py ''C'')]
   \<and> calculate_metrics ex_lib ex_recommender [ex_repeated] 2 = Inr (1 / 2, 1 / 2)
   \<and> evaluate ex_lib ex_recommender [ex_repeated] 2 = Inr (1 / 2, 1 / 2)
   \<and> spec_recall (top_k_names ex_lib ex_recommender 2 ex_repeated)
        (get_or (expected_assessments ex_repeated) []) = 1
   \<and> spec_average_precision (top_k_names ex_lib ex_recommender 2 ex_repeated)
        (get_or (expected_assessments ex_repeated) []) = 1"
  by (simp add: ex_repeated_counted ex_repeated_top_k ex_repeated_relevant ex_repeated_measures
      evaluate_single [OF ex_well_formed(1) ex_repeated_counted(1)]
      calculate_metrics_single [OF ex_well_formed(1) ex_repeated_counted(2)])

text \<open>
  C6, amended: on a well-formed recommender, for every counted test query, the recall the
  code computes is the number of distinct expected items among the results over the length of
  the expected list, and its average precision is the sum, over the ranks \<open>j\<close> from 1 that hold
  an expected item, of the hits among the first \<open>j\<close> ranks over \<open>j\<close>, divided by the length of
  the expected list; these are the two values that \<^verbatim>\<open>evaluate\<close> and \<^verbatim>\<open>calculate_metrics\<close>
  return for a test set of that one query. When no expected item is listed twice, the length
  is the size of the expected set and the two values are those of the specification. For the
  expected items A, C and the results A, B both are one half.
\<close>

theorem recall_and_average_precision:
  assumes "well_formed self"
  shows "(counted t \<longrightarrow>
            evaluate L self [t] k =
              Inr (list_recall (top_k L self k t) (relevant_items t),
                   list_average_precision (top_k L self k t) (relevant_items t)))
     \<and> (counted_by_name t \<longrightarrow>
            calculate_metrics L self [t] k =
              Inr (list_recall (top_k_names L self k t) (get_or (expected_assessments t) []),
                   list_average_precision (top_k_names L self k t)
                     (get_or (expected_assessments t) [])))
     \<and> (relevant \<noteq> [] \<longrightarrow>
            recall_at recommended relevant = list_recall recommended relevant
          \<and> average_precision recommended relevant = list_average_precision recommended relevant)
     \<and> (distinct relevant \<longrightarrow>
            list_recall recommended relevant = spec_recall recommended relevant
          \<and> list_average_precision recommended relevant
              = spec_average_precision recommended relevant)
     \<and> recall_at [Val (py ''A''), Val (py ''B'')] [py ''A'', py ''C''] = 1 / 2
     \<and> average_precision [Val (py ''A''), Val (py ''B'')] [py ''A'', py ''C''] = 1 / 2"
proof -
  have "recall_at [Val (py ''A''), Val (py ''B'')] [py ''A'', py ''C''] = 1 / 2"
    "average_precision [Val (py ''A''), Val (py ''B'')] [py ''A'', py ''C''] = 1 / 2"
    by (simp_all add: recall_at_def average_precision_def py_def)
  then show ?thesis
    using assms
    by (simp add: evaluate_single calculate_metrics_single recall_at_list average_precision_list
        list_measures_distinct)
qed

theorem recall_and_average_precision_witness:
  "well_formed ex_recommender \<and> counted (ex_tests ! 0) \<and> counted_by_name (ex_tests ! 0)
   \<and> top_k ex_lib ex_recommender 2 (ex_tests ! 0) = [Val (py ''D''), Val (py ''C'')]
   \<and> relevant_items (ex_tests ! 0) = [py ''D'', py ''A'']
   \<and> distinct [py ''D'', py ''A'']
   \<and> evaluate ex_lib ex_recommender [ex_tests ! 0] 2 = Inr (1 / 2, 1 / 2)
   \<and> calculate_metrics ex_lib ex_recommender [ex_tests ! 0] 2 = Inr (1 / 2, 1 / 2)
   \<and> spec_recall [Val (py ''D''), Val (py ''C'')] [py ''D'', py ''A''] = 1 / 2
   \<and> spec_average_precision [Val (py ''D''), Val (py ''C'')] [py ''D'', py ''A''] = 1 / 2"
proof -
  note th = recall_and_average_precision [OF ex_well_formed(1), where L = ex_lib and k = 2
      and t = "ex_tests ! 0" and relevant = "[py ''D'', py ''A'']"
      and recommended = "[Val (py ''D''), Val (py ''C'')]"]
  have c: "counted (ex_tests ! 0)" "counted_by_name (ex_tests ! 0)"
    by (simp_all add: ex_tests_def counted_def counted_by_name_def relevant_items_def get_or_def
        py_def)
  have n: "top_k_names ex_lib ex_recommender 2 (ex_tests ! 0) = [Val (py ''D''), Val (py ''C'')]"
    "get_or (expected_assessments (ex_tests ! 0)) [] = [py ''D'', py ''A'']"
    using counted_by_name_counted [OF c(2), of ex_lib ex_recommender 2]
    by (simp_all add: ex_top_k ex_relevant)
  have d: "distinct [py ''D'', py ''A'']" "[py ''D'', py ''A''] \<noteq> []" by (simp_all add: py_def)
  have m: "list_recall [Val (py ''D''), Val (py ''C'')] [py ''D'', py ''A''] = 1 / 2"
    "list_average_precision [Val (py ''D''), Val (py ''C'')] [py ''D'', py ''A''] = 1 / 2"
    using th [THEN conjunct2, THEN conjunct2, THEN conjunct1] d(2)
    by (simp_all add: ex_measures)
  have s: "spec_recall [Val (py ''D''), Val (py ''C'')] [py ''D'', py ''A''] = 1 / 2"
    "spec_average_precision [Val (py ''D''), Val (py ''C'')] [py ''D'', py ''A''] = 1 / 2"
    using th [THEN conjunct2, THEN conjunct2, THEN conjunct2, THEN conjunct1] d(1)
    by (simp_all add: m)
  have e: "evaluate ex_lib ex_recommender [ex_tests ! 0] 2 = Inr (1 / 2, 1 / 2)"
    using th [THEN conjunct1] c(1) by (simp add: ex_top_k ex_relevant m)
  have f: "calculate_metrics ex_lib ex_recommender [ex_tests ! 0] 2 = Inr (1 / 2, 1 / 2)"
    using th [THEN conjunct2, THEN conjunct1] c(2) by (simp add: n m)
  show ?thesis
    using c d(1) e f s ex_well_formed(1) by (simp add: ex_top_k ex_relevant)
qed

section \<open>The normaliser joins the words of the text\<close>

lemma is_space_blank: "is_space U 32"
  by (simp add: is_space_def)

lemma str_strip_rstrip: "str_strip U s = str_rstrip U (dropWhile (is_space U) s)"
  by (simp add: str_strip_def str_rstrip_def)

lemma str_rstrip_Nil: "str_rstrip U [] = []"
  by (simp add: str_rstrip_def)

lemma str_rstrip_Cons:
  "str_rstrip U (a # xs) =
     (if is_space U a \<and> str_rstrip U xs = [] then [] else a # str_rstrip U xs)"
proof (cases "\<forall>x\<in>set xs. is_space U x")
  case True
  have e: "dropWhile (is_space U) (rev xs @ [a]) = dropWhile (is_space U) [a]"
    by (rule dropWhile_append2) (use True in auto)
  have z: "dropWhile (is_space U) (rev xs) = []" using True by simp
  show ?thesis unfolding str_rstrip_def rev.simps e z by simp
next
  case False
  then obtain x where "x \<in> set (rev xs)" "\<not> is_space U x" by auto
  then have e: "dropWhile (is_space U) (rev xs @ [a]) = dropWhile (is_space U) (rev xs) @ [a]"
    by (rule dropWhile_append1)
  have z: "dropWhile (is_space U) (rev xs) \<noteq> []" using False by simp
  show ?thesis unfolding str_rstrip_def rev.simps e using z by simp
qed

lemma runs_nonempty: "w \<in> set (runs P s) \<Longrightarrow> w \<noteq> []"
  by (induction P s rule: runs.induct) (auto split: if_splits)

lemma join_with_Cons: "join_with sep (w # ws) = w @ (if ws = [] then [] else sep @ join_with sep ws)"
  by (cases ws) simp_all

lemma join_with_Nil_iff: "\<forall>w\<in>set ws. w \<noteq> [] \<Longrightarrow> join_with sep ws = [] \<longleftrightarrow> ws = []"
  by (cases ws) (auto simp: join_with_Cons)

lemma join_runs_Nil_iff: "join_with sep (runs P s) = [] \<longleftrightarrow> runs P s = []"
  by (rule join_with_Nil_iff) (simp add: runs_nonempty)

lemma runs_dropWhile: "runs P (dropWhile (\<lambda>c. \<not> P c) s) = runs P s"
  by (induction s) simp_all

lemma rstrip_sub_spaces:
  "str_rstrip U (sub_spaces U s) =
     (if s \<noteq> [] \<and> is_space U (hd s) \<and> runs (\<lambda>c. \<not> is_space U c) s \<noteq> [] then [32] else [])
     @ join_with [32] (runs (\<lambda>c. \<not> is_space U c) s)"
proof (induction U s rule: sub_spaces.induct)
  case (1 U)
  show ?case by (simp add: str_rstrip_Nil)
next
  case (2 U c cs)
  let ?N = "\<lambda>c. \<not> is_space U c"
  show ?case
  proof (cases "is_space U c")
    case True
    let ?t = "dropWhile (is_space U) cs"
    have hd: "?t = [] \<or> \<not> is_space U (hd ?t)"
      by (metis hd_dropWhile)
    have ih: "str_rstrip U (sub_spaces U ?t) = join_with [32] (runs ?N ?t)"
      using 2(1) [OF True] hd by auto
    have r: "runs ?N (c # cs) = runs ?N ?t"
      using True runs_dropWhile [of ?N cs] by simp
    have "str_rstrip U (sub_spaces U (c # cs)) = str_rstrip U (32 # sub_spaces U ?t)"
      using True by simp
    also have "\<dots> = (if runs ?N ?t = [] then [] else 32 # join_with [32] (runs ?N ?t))"
      by (simp only: str_rstrip_Cons ih is_space_blank join_runs_Nil_iff simp_thms)
    finally show ?thesis using True by (simp only: r) simp
  next
    case False
    have ih: "str_rstrip U (sub_spaces U cs) =
       (if cs \<noteq> [] \<and> is_space U (hd cs) \<and> runs ?N cs \<noteq> [] then [32] else [])
       @ join_with [32] (runs ?N cs)"
      using 2(2) [OF False] .
    have step: "str_rstrip U (sub_spaces U (c # cs)) = c # str_rstrip U (sub_spaces U cs)"
      using False by (simp add: str_rstrip_Cons)
    show ?thesis
    proof (cases cs)
      case Nil
      then show ?thesis using False step by (simp add: str_rstrip_Nil)
    next
      case (Cons d ds)
      show ?thesis
      proof (cases "is_space U d")
        case True
        then show ?thesis
          unfolding step ih using False Cons by (simp add: join_with_Cons)
      next
        case nd: False
        then show ?thesis
          unfolding step ih using False Cons by (simp add: join_with_Cons)
      qed
    qed
  qed
qed

lemma lstrip_sub_spaces_id:
  "t = [] \<or> \<not> is_space U (hd t) \<Longrightarrow> dropWhile (is_space U) (sub_spaces U t) = sub_spaces U t"
  by (cases t) auto

lemma lstrip_sub_spaces:
  "dropWhile (is_space U) (sub_spaces U s) = sub_spaces U (dropWhile (is_space U) s)"
proof (cases s)
  case Nil
  then show ?thesis by simp
next
  case (Cons c cs)
  show ?thesis
  proof (cases "is_space U c")
    case True
    let ?t = "dropWhile (is_space U) cs"
    have "?t = [] \<or> \<not> is_space U (hd ?t)" by (metis hd_dropWhile)
    then have "dropWhile (is_space U) (sub_spaces U ?t) = sub_spaces U ?t"
      by (rule lstrip_sub_spaces_id)
    then show ?thesis using Cons True by (simp add: is_space_blank)
  next
    case False
    then show ?thesis using Cons by simp
  qed
qed

lemma strip_sub_spaces:
  "str_strip U (sub_spaces U s) = join_with [32] (runs (\<lambda>c. \<not> is_space U c) s)"
proof -
  let ?t = "dropWhile (is_space U) s"
  have "?t = [] \<or> \<not> is_space U (hd ?t)" by (metis hd_dropWhile)
  then have "str_rstrip U (sub_spaces U ?t) = join_with [32] (runs (\<lambda>c. \<not> is_space U c) ?t)"
    by (auto simp: rstrip_sub_spaces)
  moreover have "runs (\<lambda>c. \<not> is_space U c) ?t = runs (\<lambda>c. \<not> is_space U c) s"
    using runs_dropWhile [of "\<lambda>c. \<not> is_space U c" s] by simp
  ultimately show ?thesis by (simp add: str_strip_rstrip lstrip_sub_spaces)
qed

lemma clean_text_spec: "clean_text U (PyStr text) = normalize_spec U text"
  by (simp add: strip_sub_spaces normalize_spec_def sub_punct_def blanked_def [abs_def]
      is_word_def)

subsection \<open>ASCII texts\<close>

lemma runs_map: "runs P (map f xs) = map (map f) (runs (\<lambda>x. P (f x)) xs)"
proof (induction "\<lambda>x. P (f x)" xs rule: runs.induct)
  case 1
  show ?case by simp
next
  case (2 c cs)
  then show ?case by (simp add: takeWhile_map dropWhile_map comp_def)
qed

lemma runs_all: "w \<in> set (runs P xs) \<Longrightarrow> x \<in> set w \<Longrightarrow> P x"
  by (induction P xs rule: runs.induct) (auto split: if_splits dest: set_takeWhileD)

lemma runs_blank:
  "runs (\<lambda>c. c \<noteq> 32) (map (\<lambda>c. if is_space U c then 32 else c) xs)
     = runs (\<lambda>c. \<not> is_space U c) xs"
proof -
  let ?f = "\<lambda>c. if is_space U c then 32 else c"
  have p: "(\<lambda>x. ?f x \<noteq> 32) = (\<lambda>c. \<not> is_space U c)"
    using is_space_blank [of U] by (auto simp: fun_eq_iff)
  have "map (map ?f) (runs (\<lambda>c. \<not> is_space U c) xs) = runs (\<lambda>c. \<not> is_space U c) xs"
    by (rule map_idI, rule map_idI) (use runs_all [of _ "\<lambda>c. \<not> is_space U c" xs] in auto)
  then show ?thesis by (simp add: runs_map p)
qed

lemma ascii_norm_char:
  "c < 128 \<Longrightarrow> is_space U (blanked U (lower_ascii c)) \<Longrightarrow> ascii_norm c = 32"
  "c < 128 \<Longrightarrow> \<not> is_space U (blanked U (lower_ascii c)) \<Longrightarrow>
   blanked U (lower_ascii c) = ascii_norm c"
  by (auto simp: ascii_norm_def blanked_def lower_ascii_def is_space_def is_alnum_def
      is_upper_def is_lower_def is_digit_def)

lemma normalize_spec_ascii:
  assumes "list_all (\<lambda>c. c < 128) text"
  shows "normalize_spec U text = normalize_ascii text"
proof -
  let ?ys = "map (blanked U) (map lower_ascii text)"
  have m: "map (\<lambda>c. if is_space U c then 32 else c) ?ys = map ascii_norm text"
    using assms by (auto simp: list_all_iff ascii_norm_char)
  have "runs (\<lambda>c. \<not> is_space U c) ?ys = runs (\<lambda>c. c \<noteq> 32) (map ascii_norm text)"
    using runs_blank [of U ?ys] by (simp only: m)
  moreover have "str_lower U text = map lower_ascii text"
    using assms by (simp add: str_lower_def)
  ultimately show ?thesis by (simp only: normalize_spec_def normalize_ascii_def)
qed

lemma ex_all_ascii:
  "normalize_ascii [0..<128] =
     py ''- 0123456789 abcdefghijklmnopqrstuvwxyz _ abcdefghijklmnopqrstuvwxyz''"
  by code_simp

lemma ex_latin_text:
  "normalize_spec ex_latin ([67, 97, 102, 201, 160] @ py ''Bar!'') = [99, 97, 102, 233, 32] @ py ''bar''"
  by (simp add: normalize_spec_def str_lower_def ex_latin_def lower_ascii_def is_upper_def
      blanked_def is_alnum_def is_lower_def is_digit_def is_space_def py_def)

lemma ex_java:
  "list_all (\<lambda>c. c < 128) (py ''  Java & C++,  Team_Lead-2 (m/f) '')"
  "normalize_ascii (py ''  Java & C++,  Team_Lead-2 (m/f) '') = py ''java c team_lead-2 m f''"
  by (simp_all add: normalize_ascii_def ascii_norm_def py_def)

text \<open>
  C8: on a string the normaliser returns the whitespace-separated words of the lowercased
  text, in which every character other than an alphanumeric character, an underscore,
  whitespace or a hyphen has become a blank, joined by single blanks (so whitespace runs are
  collapsed and the ends are trimmed), whatever the Unicode database says beyond ASCII. On an
  ASCII text this is: the letters A to Z become a to z; the letters a to z, the digits, the
  underscore and the hyphen stay; every other character separates words; the words are
  joined by single blanks. The 128 ASCII characters in their order give
  \<^verbatim>\<open>- 0123456789 abcdefghijklmnopqrstuvwxyz _ abcdefghijklmnopqrstuvwxyz\<close>. On an input that is
  not a string (None, NaN, a number, a list) the normaliser returns the empty string.
\<close>

theorem clean_text_normalizes:
  "clean_text U (PyStr text) = normalize_spec U text
   \<and> (list_all (\<lambda>c. c < 128) text \<longrightarrow> clean_text U (PyStr text) = normalize_ascii text)
   \<and> clean_text U (PyStr [0..<128]) =
         py ''- 0123456789 abcdefghijklmnopqrstuvwxyz _ abcdefghijklmnopqrstuvwxyz''
   \<and> clean_text U PyNone = [] \<and> clean_text U PyNaN = []
   \<and> clean_text U (PyInt n) = [] \<and> clean_text U (PyList xs) = []"
proof -
  have "list_all (\<lambda>c. c < 128) [0..<128]" by (simp add: list_all_iff)
  then have "clean_text U (PyStr [0..<128]) = normalize_ascii [0..<128]"
    by (simp only: clean_text_spec normalize_spec_ascii)
  then show ?thesis
    by (simp add: ex_all_ascii clean_text_spec normalize_spec_ascii del: clean_text.simps(1))
qed

theorem clean_text_normalizes_witness:
  "list_all (\<lambda>c. c < 128) (py ''  Java & C++,  Team_Lead-2 (m/f) '')
   \<and> clean_text ex_db (PyStr (py ''  Java & C++,  Team_Lead-2 (m/f) '')) = py ''java c team_lead-2 m f''
   \<and> clean_text ex_latin (PyStr ([67, 97, 102, 201, 160] @ py ''Bar!''))
       = [99, 97, 102, 233, 32] @ py ''bar''"
proof -
  note th = clean_text_normalizes [of ex_db "py ''  Java & C++,  Team_Lead-2 (m/f) ''" 0 "[]"]
  note th' = clean_text_normalizes [of ex_latin "[67, 97, 102, 201, 160] @ py ''Bar!''" 0 "[]"]
  have a: "clean_text ex_db (PyStr (py ''  Java & C++,  Team_Lead-2 (m/f) ''))
        = py ''java c team_lead-2 m f''"
    using th [THEN conjunct2, THEN conjunct1] ex_java(1) by (simp only: ex_java(2))
  have b: "clean_text ex_latin (PyStr ([67, 97, 102, 201, 160] @ py ''Bar!''))
       = [99, 97, 102, 233, 32] @ py ''bar''"
    using th' [THEN conjunct1] by (simp only: ex_latin_text)
  show ?thesis using a b ex_java(1) by (simp only: simp_thms)
qed

end
